theory Spec2Isabelle
  imports Main "HOL-Library.Word"
begin

unbundle bit_operations_syntax

section \<open>Shared data model (peeler.h, internal.h)\<close>

type_synonym byte = "8 word"
type_synonym u16 = "16 word"
type_synonym u32 = "32 word"

text \<open>
  A \<^verbatim>\<open>peel_buf_t\<close> is modelled by the list of its valid bytes. Every buffer the
  library builds has a null data pointer only when its size is 0, so the source's tests
  \<^verbatim>\<open>buf.data && ...\<close> read \<open>buf \<noteq> []\<close> here. Allocation is taken to succeed: the
  out-of-memory returns of the source have no branch in the model.
\<close>

record peel_file =
  meta_name :: "byte list"
  mac_type :: u32
  mac_creator :: u32
  finder_flags :: u16
  data_fork :: "byte list"
  resource_fork :: "byte list"

text \<open>One constructor for each \<^verbatim>\<open>make_err\<close> / \<^verbatim>\<open>decode_abort\<close> site that is modelled.\<close>

datatype error =
    SIT_method0_short u32 u32
  | SIT_unsupported_method byte
  | SIT_fork_crc_mismatch u16 u16
  | SIT_classic_too_small
  | SIT_classic_fork_past_end
  | SIT_too_many_files
  | SIT_no_signature
  | SIT_lzw_no_return
  | Bin_too_short nat
  | Bin_invalid_header
  | Bin_fork_too_long
  | Bin_data_truncated
  | Bin_rsrc_truncated
  | Hqx_no_preamble
  | Hqx_no_start_colon
  | Hqx_invalid_char byte
  | Hqx_illegal_rle_count
  | Hqx_premature_end nat
  | Hqx_invalid_name_length byte
  | Hqx_header_crc_mismatch
  | Hqx_fork_crc_mismatch_empty string
  | Hqx_fork_crc_mismatch string
  | External_error string

text \<open>C strings: the bytes before the first NUL.\<close>

definition cstr :: "byte list \<Rightarrow> byte list" where
  "cstr xs = takeWhile (\<lambda>b. b \<noteq> 0) xs"

definition bytes_of :: "string \<Rightarrow> byte list" where
  "bytes_of s = map (\<lambda>c. of_nat (of_char c)) s"

definition rd16be :: "byte list \<Rightarrow> u16" where
  "rd16be p = push_bit 8 (ucast (p ! 0)) OR ucast (p ! 1)"

definition rd32be :: "byte list \<Rightarrow> u32" where
  "rd32be p = push_bit 24 (ucast (p ! 0)) OR push_bit 16 (ucast (p ! 1))
              OR push_bit 8 (ucast (p ! 2)) OR ucast (p ! 3)"

text \<open>\<^verbatim>\<open>memcmp(p, s, length s) == 0\<close> on a buffer that holds at least that many bytes.\<close>

definition bytes_at :: "byte list \<Rightarrow> nat \<Rightarrow> byte list \<Rightarrow> bool" where
  "bytes_at buf off s = (take (length s) (drop off buf) = s)"

section \<open>StuffIt: CRC-16 (sit.c)\<close>

definition sit_crc_table :: "u16 list" where
  "sit_crc_table = [
    0x0000, 0xC0C1, 0xC181, 0x0140, 0xC301, 0x03C0, 0x0280, 0xC241,
    0xC601, 0x06C0, 0x0780, 0xC741, 0x0500, 0xC5C1, 0xC481, 0x0440,
    0xCC01, 0x0CC0, 0x0D80, 0xCD41, 0x0F00, 0xCFC1, 0xCE81, 0x0E40,
    0x0A00, 0xCAC1, 0xCB81, 0x0B40, 0xC901, 0x09C0, 0x0880, 0xC841,
    0xD801, 0x18C0, 0x1980, 0xD941, 0x1B00, 0xDBC1, 0xDA81, 0x1A40,
    0x1E00, 0xDEC1, 0xDF81, 0x1F40, 0xDD01, 0x1DC0, 0x1C80, 0xDC41,
    0x1400, 0xD4C1, 0xD581, 0x1540, 0xD701, 0x17C0, 0x1680, 0xD641,
    0xD201, 0x12C0, 0x1380, 0xD341, 0x1100, 0xD1C1, 0xD081, 0x1040,
    0xF001, 0x30C0, 0x3180, 0xF141, 0x3300, 0xF3C1, 0xF281, 0x3240,
    0x3600, 0xF6C1, 0xF781, 0x3740, 0xF501, 0x35C0, 0x3480, 0xF441,
    0x3C00, 0xFCC1, 0xFD81, 0x3D40, 0xFF01, 0x3FC0, 0x3E80, 0xFE41,
    0xFA01, 0x3AC0, 0x3B80, 0xFB41, 0x3900, 0xF9C1, 0xF881, 0x3840,
    0x2800, 0xE8C1, 0xE981, 0x2940, 0xEB01, 0x2BC0, 0x2A80, 0xEA41,
    0xEE01, 0x2EC0, 0x2F80, 0xEF41, 0x2D00, 0xEDC1, 0xEC81, 0x2C40,
    0xE401, 0x24C0, 0x2580, 0xE541, 0x2700, 0xE7C1, 0xE681, 0x2640,
    0x2200, 0xE2C1, 0xE381, 0x2340, 0xE101, 0x21C0, 0x2080, 0xE041,
    0xA001, 0x60C0, 0x6180, 0xA141, 0x6300, 0xA3C1, 0xA281, 0x6240,
    0x6600, 0xA6C1, 0xA781, 0x6740, 0xA501, 0x65C0, 0x6480, 0xA441,
    0x6C00, 0xACC1, 0xAD81, 0x6D40, 0xAF01, 0x6FC0, 0x6E80, 0xAE41,
    0xAA01, 0x6AC0, 0x6B80, 0xAB41, 0x6900, 0xA9C1, 0xA881, 0x6840,
    0x7800, 0xB8C1, 0xB981, 0x7940, 0xBB01, 0x7BC0, 0x7A80, 0xBA41,
    0xBE01, 0x7EC0, 0x7F80, 0xBF41, 0x7D00, 0xBDC1, 0xBC81, 0x7C40,
    0xB401, 0x74C0, 0x7580, 0xB541, 0x7700, 0xB7C1, 0xB681, 0x7640,
    0x7200, 0xB2C1, 0xB381, 0x7340, 0xB101, 0x71C0, 0x7080, 0xB041,
    0x5000, 0x90C1, 0x9181, 0x5140, 0x9301, 0x53C0, 0x5280, 0x9241,
    0x9601, 0x56C0, 0x5780, 0x9741, 0x5500, 0x95C1, 0x9481, 0x5440,
    0x9C01, 0x5CC0, 0x5D80, 0x9D41, 0x5F00, 0x9FC1, 0x9E81, 0x5E40,
    0x5A00, 0x9AC1, 0x9B81, 0x5B40, 0x9901, 0x59C0, 0x5880, 0x9841,
    0x8801, 0x48C0, 0x4980, 0x8941, 0x4B00, 0x8BC1, 0x8A81, 0x4A40,
    0x4E00, 0x8EC1, 0x8F81, 0x4F40, 0x8D01, 0x4DC0, 0x4C80, 0x8C41,
    0x4400, 0x84C1, 0x8581, 0x4540, 0x8701, 0x47C0, 0x4680, 0x8641,
    0x8201, 0x42C0, 0x4380, 0x8341, 0x4100, 0x81C1, 0x8081, 0x4040]"

fun sit_crc_update :: "u16 \<Rightarrow> byte list \<Rightarrow> u16" where
  "sit_crc_update crc [] = crc"
| "sit_crc_update crc (b # buf) =
     sit_crc_update (sit_crc_table ! unat ((crc XOR ucast b) AND 0xFF) XOR drop_bit 8 crc) buf"

definition sit_crc :: "byte list \<Rightarrow> u16" where
  "sit_crc buf = sit_crc_update 0 buf"

section \<open>StuffIt method 1: RLE90 (sit.c, decompress_fork, case 1)\<close>

text \<open>
  The loop \<^verbatim>\<open>while (produced < raw_len && src_off < packed_len)\<close>. The arguments are
  the declared length, the remembered \<^verbatim>\<open>last_byte\<close>, the output written so far
  (\<^verbatim>\<open>produced\<close> is its length) and the input from \<^verbatim>\<open>src_off\<close> up to
  \<^verbatim>\<open>packed_len\<close>. The result is the output and \<^verbatim>\<open>last_byte\<close> when the loop is left.
\<close>

fun rle90_loop :: "nat \<Rightarrow> byte \<Rightarrow> byte list \<Rightarrow> byte list \<Rightarrow> byte list \<times> byte" where
  "rle90_loop raw_len last_byte out [] = (out, last_byte)"
| "rle90_loop raw_len last_byte out (b # src) =
     (if \<not> length out < raw_len then (out, last_byte)
      else if b \<noteq> 0x90 then rle90_loop raw_len b (out @ [b]) src
      else (case src of
              [] \<Rightarrow> (out, last_byte)
            | n # src' \<Rightarrow>
                if n = 0 then rle90_loop raw_len last_byte (out @ [0x90]) src'
                else if n > 1 then
                  (let repeats = unat n - 1;
                       repeats = (if length out + repeats > raw_len
                                  then raw_len - length out else repeats)
                   in rle90_loop raw_len last_byte (out @ replicate repeats last_byte) src')
                else rle90_loop raw_len last_byte out src'))"

section \<open>StuffIt method 2: LZW (sit.c)\<close>

text \<open>
  \<^verbatim>\<open>lzw_state_t\<close>. The four dictionary arrays of \<^verbatim>\<open>LZW_TABLE_CAP\<close> entries are
  functions from the index, and so is the staging buffer. The C \<^verbatim>\<open>int\<close> fields are
  \<open>int\<close>: none of them leaves the range of a 32-bit integer on a state reached from
  \<open>lzw_create\<close> with an input below 2 GiB.
\<close>

record lzw_state =
  lzw_src :: "byte list"
  lzw_src_bytes :: nat
  lzw_bit_pos :: nat
  lzw_prev_code :: "int \<Rightarrow> u16"
  lzw_suffix :: "int \<Rightarrow> byte"
  lzw_head :: "int \<Rightarrow> byte"
  lzw_chain_len :: "int \<Rightarrow> u16"
  lzw_tbl_next :: int
  lzw_code_bits :: int
  lzw_prev :: int
  lzw_block_count :: int
  lzw_stage :: "nat \<Rightarrow> byte"
  lzw_stage_rd :: nat
  lzw_stage_len :: nat

definition LZW_MAX_BITS :: int where "LZW_MAX_BITS = 14"
definition LZW_TABLE_CAP :: int where "LZW_TABLE_CAP = 16384"
definition LZW_CLEAR_CODE :: int where "LZW_CLEAR_CODE = 256"
definition LZW_FIRST_NEW :: int where "LZW_FIRST_NEW = 257"

definition lzw_create :: "byte list \<Rightarrow> nat \<Rightarrow> lzw_state" where
  "lzw_create src src_bytes =
     \<lparr> lzw_src = src, lzw_src_bytes = src_bytes, lzw_bit_pos = 0,
       lzw_prev_code = (\<lambda>i. if 0 \<le> i \<and> i < 256 then 0xFFFF else 0),
       lzw_suffix = (\<lambda>i. if 0 \<le> i \<and> i < 256 then word_of_int i else 0),
       lzw_head = (\<lambda>i. if 0 \<le> i \<and> i < 256 then word_of_int i else 0),
       lzw_chain_len = (\<lambda>i. if 0 \<le> i \<and> i < 256 then 1 else 0),
       lzw_tbl_next = LZW_FIRST_NEW, lzw_code_bits = 9, lzw_prev = - 1,
       lzw_block_count = 0, lzw_stage = (\<lambda>i. 0), lzw_stage_rd = 0, lzw_stage_len = 0 \<rparr>"

text \<open>\<^verbatim>\<open>memcpy(&acc, p, avail)\<close> into a zeroed \<^verbatim>\<open>uint32_t\<close> (little-endian host).\<close>

fun le32 :: "byte list \<Rightarrow> u32" where
  "le32 [] = 0"
| "le32 (b # bs) = ucast b OR push_bit 8 (le32 bs)"

definition lzw_next_code :: "lzw_state \<Rightarrow> int \<times> lzw_state" where
  "lzw_next_code z =
     (let byte_off = drop_bit 3 (lzw_bit_pos z) in
      if byte_off \<ge> lzw_src_bytes z then (- 1, z)
      else
        let avail = lzw_src_bytes z - byte_off;
            avail = (if avail > 4 then 4 else avail);
            acc = le32 (take avail (drop byte_off (lzw_src z)));
            shift = lzw_bit_pos z mod 8;
            mask = 2 ^ nat (lzw_code_bits z) - (1 :: int);
            code = uint (drop_bit shift acc AND word_of_int mask)
        in (code, z\<lparr> lzw_bit_pos := lzw_bit_pos z + nat (lzw_code_bits z),
                       lzw_block_count := lzw_block_count z + 1 \<rparr>))"

text \<open>
  The backward walk \<^verbatim>\<open>while (cur != UINT16_MAX && pos > 0)\<close> with its store
  \<^verbatim>\<open>stage[--pos] = suffix[cur]\<close>; the result is the staging buffer and the final
  \<^verbatim>\<open>pos\<close>. \<open>lzw_shift\<close> is the \<^verbatim>\<open>memmove\<close> that follows when the walk stopped short.
\<close>

fun lzw_walk :: "lzw_state \<Rightarrow> int \<Rightarrow> nat \<Rightarrow> (nat \<Rightarrow> byte) \<Rightarrow> (nat \<Rightarrow> byte) \<times> nat" where
  "lzw_walk z cur 0 stage = (stage, 0)"
| "lzw_walk z cur (Suc pos) stage =
     (if cur = 0xFFFF then (stage, Suc pos)
      else lzw_walk z (uint (lzw_prev_code z cur)) pos (stage(pos := lzw_suffix z cur)))"

definition lzw_shift :: "(nat \<Rightarrow> byte) \<Rightarrow> nat \<Rightarrow> nat \<Rightarrow> nat \<Rightarrow> byte" where
  "lzw_shift stage pos len = (\<lambda>i. if i < len - pos then stage (i + pos) else stage i)"

definition lzw_expand :: "lzw_state \<Rightarrow> int \<Rightarrow> lzw_state" where
  "lzw_expand z code =
     (let len = uint (lzw_chain_len z code);
          len = (if len > LZW_TABLE_CAP then LZW_TABLE_CAP else len);
          (stage, pos) = lzw_walk z code (nat len) (lzw_stage z)
      in if pos > 0
         then z\<lparr> lzw_stage := lzw_shift stage pos (nat len), lzw_stage_rd := 0,
                 lzw_stage_len := nat len - pos \<rparr>
         else z\<lparr> lzw_stage := stage, lzw_stage_rd := 0, lzw_stage_len := nat len \<rparr>)"

definition lzw_add_entry :: "lzw_state \<Rightarrow> int \<Rightarrow> byte \<Rightarrow> lzw_state" where
  "lzw_add_entry z prev_val first_byte =
     (if lzw_tbl_next z \<ge> LZW_TABLE_CAP then z
      else
        let idx = lzw_tbl_next z;
            z = z\<lparr> lzw_prev_code := (lzw_prev_code z)(idx := word_of_int prev_val),
                    lzw_suffix := (lzw_suffix z)(idx := first_byte),
                    lzw_head := (lzw_head z)(idx := lzw_head z prev_val),
                    lzw_chain_len := (lzw_chain_len z)(idx := lzw_chain_len z prev_val + 1),
                    lzw_tbl_next := lzw_tbl_next z + 1 \<rparr>
        in if lzw_tbl_next z < LZW_TABLE_CAP
              \<and> (lzw_tbl_next z AND (lzw_tbl_next z - 1)) = 0
              \<and> lzw_code_bits z < LZW_MAX_BITS
           then z\<lparr> lzw_code_bits := lzw_code_bits z + 1 \<rparr> else z)"

datatype 'a loop_step = Break 'a | Continue 'a

text \<open>
  One pass through the body of \<^verbatim>\<open>while (got < want)\<close> in \<^verbatim>\<open>lzw_decode\<close>; the second
  component of the pair is \<^verbatim>\<open>dst[0 .. got)\<close>.
\<close>

definition lzw_decode_step ::
  "nat \<Rightarrow> lzw_state \<times> byte list \<Rightarrow> (lzw_state \<times> byte list) loop_step" where
  "lzw_decode_step want st =
     (let z = fst st; dst = snd st; got = length dst in
      if lzw_stage_rd z < lzw_stage_len z then
        (let n = lzw_stage_len z - lzw_stage_rd z;
             n = (if n > want - got then want - got else n)
         in Continue (z\<lparr> lzw_stage_rd := lzw_stage_rd z + n \<rparr>,
                      dst @ map (lzw_stage z) [lzw_stage_rd z ..< lzw_stage_rd z + n]))
      else
        let (code, z) = lzw_next_code z in
        if code < 0 then Break (z, dst)
        else if code = LZW_CLEAR_CODE then
          (let z = (if (lzw_block_count z AND 7) \<noteq> 0
                    then z\<lparr> lzw_bit_pos := lzw_bit_pos z
                             + nat (lzw_code_bits z * (8 - (lzw_block_count z AND 7))) \<rparr>
                    else z)
           in Continue (z\<lparr> lzw_tbl_next := LZW_FIRST_NEW, lzw_code_bits := 9,
                             lzw_prev := - 1, lzw_block_count := 0 \<rparr>, dst))
        else if lzw_prev z < 0 then
          Continue (z\<lparr> lzw_prev := code \<rparr>,
                    if code < 256 then dst @ [word_of_int code] else dst)
        else
          let first_ch = (if code < lzw_tbl_next z then lzw_head z code
                          else lzw_head z (lzw_prev z));
              z = lzw_add_entry z (lzw_prev z) first_ch;
              z = (if code < lzw_tbl_next z then lzw_expand z code
                   else
                     let len = uint (lzw_chain_len z (lzw_prev z)) + 1;
                         len = (if len > LZW_TABLE_CAP then LZW_TABLE_CAP else len);
                         (stage, pos) = lzw_walk z (lzw_prev z) (nat len - 1)
                                          ((lzw_stage z)(nat len - 1 := first_ch))
                     in if pos > 0
                        then z\<lparr> lzw_stage := lzw_shift stage pos (nat len), lzw_stage_rd := 0,
                                lzw_stage_len := nat len - pos \<rparr>
                        else z\<lparr> lzw_stage := stage, lzw_stage_rd := 0,
                                lzw_stage_len := nat len \<rparr>)
          in Continue (z\<lparr> lzw_prev := code \<rparr>, dst))"

text \<open>
  The loop itself. It leaves only when \<^verbatim>\<open>got\<close> reaches \<^verbatim>\<open>want\<close> or the input is
  exhausted, and a pass makes progress only when the code width is positive, so it is a
  partial function: \<open>None\<close> stands for a loop that does not return.
\<close>

partial_function (option) lzw_decode_loop ::
  "nat \<Rightarrow> lzw_state \<times> byte list \<Rightarrow> (lzw_state \<times> byte list) option" where
  "lzw_decode_loop want st =
     (if length (snd st) < want
      then (case lzw_decode_step want st of
              Break st' \<Rightarrow> Some st'
            | Continue st' \<Rightarrow> lzw_decode_loop want st')
      else Some st)"

declare lzw_decode_loop.simps [code]

definition lzw_decode :: "lzw_state \<Rightarrow> nat \<Rightarrow> (lzw_state \<times> byte list) option" where
  "lzw_decode z want = lzw_decode_loop want (z, [])"

section \<open>StuffIt fork decompression (sit.c, decompress_fork)\<close>

record sit_fork_info =
  fork_raw_len :: u32
  fork_packed_len :: u32
  fork_crc :: u16
  fork_method :: byte
  fork_data :: "byte list"

text \<open>
  \<open>fork_data\<close> is the archive from the fork's first byte on (the pointer \<^verbatim>\<open>data\<close>);
  the parser has checked that \<open>fork_packed_len\<close> bytes lie inside the archive. The
  decoders of methods 13 and 15 live in other files and are parameters here.
\<close>

type_synonym fork_decoder = "byte list \<Rightarrow> nat \<Rightarrow> nat \<Rightarrow> error + byte list"

definition sit_check_crc :: "u16 \<Rightarrow> byte list \<Rightarrow> error + byte list" where
  "sit_check_crc expect_crc out =
     (let actual_crc = sit_crc out in
      if actual_crc \<noteq> expect_crc then Inl (SIT_fork_crc_mismatch expect_crc actual_crc)
      else Inr out)"

definition decompress_fork ::
  "fork_decoder \<Rightarrow> fork_decoder \<Rightarrow> sit_fork_info \<Rightarrow> error + byte list" where
  "decompress_fork peel_sit13 peel_sit15 fi =
     (let raw_len = unat (fork_raw_len fi);
          packed_len = unat (fork_packed_len fi);
          expect_crc = fork_crc fi;
          method = fork_method fi;
          src = fork_data fi
      in
      if method = 13 then
        (case peel_sit13 src packed_len raw_len of
           Inl e \<Rightarrow> Inl e
         | Inr result \<Rightarrow> sit_check_crc expect_crc result)
      else if method = 15 then peel_sit15 src packed_len raw_len
      else if method = 0 then
        (if packed_len < raw_len
         then Inl (SIT_method0_short (fork_packed_len fi) (fork_raw_len fi))
         else sit_check_crc expect_crc (take raw_len src))
      else if method = 1 then
        sit_check_crc expect_crc (fst (rle90_loop raw_len 0 [] (take packed_len src)))
      else if method = 2 then
        (case lzw_decode (lzw_create src packed_len) raw_len of
           None \<Rightarrow> Inl SIT_lzw_no_return
         | Some (z, out) \<Rightarrow> sit_check_crc expect_crc out)
      else Inl (SIT_unsupported_method method))"

section \<open>Compact Pro: memory source and RLE (cpt.c)\<close>

record cp_memsrc =
  ms_base :: "byte list"
  ms_pos :: nat
  ms_end :: nat

definition cp_memsrc_next :: "cp_memsrc \<Rightarrow> (byte \<times> cp_memsrc) option" where
  "cp_memsrc_next m =
     (if ms_pos m \<ge> ms_end m then None
      else Some (ms_base m ! ms_pos m, m\<lparr> ms_pos := ms_pos m + 1 \<rparr>))"

text \<open>
  \<^verbatim>\<open>cp_rle_t\<close> without its byte supplier, which is passed to \<open>cp_rle_read\<close> together
  with the supplier's own state. Both suppliers of the source (the memory source and
  the LZH decoder) deliver values of type \<^verbatim>\<open>uint8_t\<close>.
\<close>

record cp_rle =
  prev_byte :: byte
  run_left :: int
  escape_pending :: bool

definition cp_rle_init :: cp_rle where
  "cp_rle_init = \<lparr> prev_byte = 0, run_left = 0, escape_pending = False \<rparr>"

text \<open>
  \<^verbatim>\<open>cp_rle_read\<close>: the last argument is \<^verbatim>\<open>dst[0 .. written)\<close>. \<open>max_n\<close> is the parameter \<^verbatim>\<open>max\<close>. The source
  returns \<^verbatim>\<open>written\<close>; the model returns the bytes written and the state left behind.
\<close>

function cp_rle_read ::
  "('s \<Rightarrow> (byte \<times> 's) option) \<Rightarrow> nat \<Rightarrow> cp_rle \<times> 's \<Rightarrow> byte list
     \<Rightarrow> byte list \<times> cp_rle \<times> 's" where
  "cp_rle_read supply max_n rs dst =
     (let r = fst rs; s = snd rs in
      if \<not> length dst < max_n then (dst, r, s)
      else if run_left r > 0 then
        cp_rle_read supply max_n (r\<lparr> run_left := run_left r - 1 \<rparr>, s) (dst @ [prev_byte r])
      else
        (case (if escape_pending r then Some (0x81, s) else supply s) of
           None \<Rightarrow> (dst, r, s)
         | Some (byte_val, s1) \<Rightarrow>
             let r = r\<lparr> escape_pending := False \<rparr> in
             if byte_val \<noteq> 0x81 then
               cp_rle_read supply max_n (r\<lparr> prev_byte := byte_val \<rparr>, s1) (dst @ [byte_val])
             else
               (case supply s1 of
                  None \<Rightarrow> (dst, r, s1)
                | Some (nxt, s2) \<Rightarrow>
                    if nxt = 0x82 then
                      (case supply s2 of
                         None \<Rightarrow> (dst, r, s2)
                       | Some (count, s3) \<Rightarrow>
                           if count = 0 then
                             cp_rle_read supply max_n
                               (r\<lparr> prev_byte := 0x82, run_left := 1 \<rparr>, s3) (dst @ [0x81])
                           else
                             cp_rle_read supply max_n
                               (r\<lparr> run_left := (if uint count \<ge> 2 then uint count - 2 else 0) \<rparr>, s3)
                               (dst @ [prev_byte r]))
                    else if nxt = 0x81 then
                      cp_rle_read supply max_n
                        (r\<lparr> prev_byte := 0x81, escape_pending := True \<rparr>, s2) (dst @ [0x81])
                    else
                      cp_rle_read supply max_n
                        (r\<lparr> prev_byte := nxt, run_left := 1 \<rparr>, s2) (dst @ [0x81]))))"
  by pat_completeness auto
termination
  by (relation "measure (\<lambda>(supply, max_n, rs, dst). max_n - length dst)") auto

declare cp_rle_read.simps [simp del]

text \<open>
  \<^verbatim>\<open>cpt_detect\<close>: magic and volume bytes, directory offset between 8 and 256 MiB.
\<close>

definition cpt_detect :: "byte list \<Rightarrow> bool" where
  "cpt_detect src =
     (if length src < 8 then False
      else if src ! 0 \<noteq> 0x01 \<or> src ! 1 \<noteq> 0x01 then False
      else let dir_off = rd32be (drop 4 src)
           in \<not> (dir_off < 8 \<or> dir_off > 0x10000000))"

text \<open>
  The bounds the decoder keeps on its dictionary: the next free slot stays between
  \<^verbatim>\<open>LZW_FIRST_NEW\<close> and \<^verbatim>\<open>LZW_TABLE_CAP\<close>, the code width between 9 and
  \<^verbatim>\<open>LZW_MAX_BITS\<close>. \<open>lzw_measure\<close> bounds the passes the loop can still make, and
  \<open>lzw_full_example\<close> is a decoder whose dictionary is full and whose next code is the
  clear code.
\<close>

definition lzw_bounded :: "lzw_state \<Rightarrow> bool" where
  "lzw_bounded z \<longleftrightarrow> LZW_FIRST_NEW \<le> lzw_tbl_next z \<and> lzw_tbl_next z \<le> LZW_TABLE_CAP
      \<and> 9 \<le> lzw_code_bits z \<and> lzw_code_bits z \<le> LZW_MAX_BITS"

definition lzw_measure :: "nat \<Rightarrow> lzw_state \<times> byte list \<Rightarrow> nat" where
  "lzw_measure want st =
     (want - length (snd st)) + (8 * lzw_src_bytes (fst st) - lzw_bit_pos (fst st))"

definition lzw_full_example :: lzw_state where
  "lzw_full_example = (lzw_create [0x00, 0x01] 2)\<lparr> lzw_tbl_next := 16384, lzw_code_bits := 14 \<rparr>"

section \<open>StuffIt classic archives (sit.c)\<close>

record sit_entry =
  ent_name :: "byte list"
  ent_mac_type :: u32
  ent_mac_creator :: u32
  ent_finder_flags :: u16
  ent_data_fork :: sit_fork_info
  ent_rsrc_fork :: sit_fork_info
  ent_has_rsrc :: bool

definition SIT_CLASSIC_HDR_SIZE :: nat where "SIT_CLASSIC_HDR_SIZE = 22"
definition SIT_ENTRY_HDR_SIZE :: nat where "SIT_ENTRY_HDR_SIZE = 112"
definition SIT_FOLDER_START :: byte where "SIT_FOLDER_START = 0x20"
definition SIT_FOLDER_END :: byte where "SIT_FOLDER_END = 0x21"
definition SIT_MAX_DEPTH :: nat where "SIT_MAX_DEPTH = 10"
definition SIT_MAX_FILES :: nat where "SIT_MAX_FILES = 65536"

definition classic_sigs :: "byte list list" where
  "classic_sigs = map bytes_of
     [''SIT!'', ''ST46'', ''ST50'', ''ST60'', ''ST65'', ''STin'', ''STi2'', ''STi3'', ''STi4'']"

text \<open>
  \<^verbatim>\<open>find_classic_magic\<close> and \<^verbatim>\<open>find_sit5_magic\<close>: the loops
  \<^verbatim>\<open>for (off = 0; off <= limit; ++off)\<close>; \<open>None\<close> is the return value \<open>-1\<close>.
\<close>

function find_classic_loop :: "byte list \<Rightarrow> nat \<Rightarrow> nat \<Rightarrow> nat option" where
  "find_classic_loop src limit off =
     (if off \<le> limit then
        (if \<not> bytes_at src (off + 10) (bytes_of ''rLau'') then find_classic_loop src limit (off + 1)
         else if list_ex (\<lambda>sig. bytes_at src off sig) classic_sigs then Some off
         else find_classic_loop src limit (off + 1))
      else None)"
  by pat_completeness auto
termination
  by (relation "measure (\<lambda>(src, limit, off). limit + 1 - off)") auto

declare find_classic_loop.simps [simp del]

definition find_classic_magic :: "byte list \<Rightarrow> nat option" where
  "find_classic_magic src =
     (if length src < SIT_CLASSIC_HDR_SIZE then None
      else find_classic_loop src (length src - 14) 0)"

function find_sit5_loop :: "byte list \<Rightarrow> nat \<Rightarrow> nat \<Rightarrow> nat option" where
  "find_sit5_loop src limit off =
     (if off \<le> limit then
        (if bytes_at src off (bytes_of ''StuffIt (c)1997-'')
            \<and> bytes_at src (off + 20)
                 (bytes_of '' Aladdin Systems, Inc., http://www.aladdinsys.com/StuffIt/'')
         then Some off
         else find_sit5_loop src limit (off + 1))
      else None)"
  by pat_completeness auto
termination
  by (relation "measure (\<lambda>(src, limit, off). limit + 1 - off)") auto

declare find_sit5_loop.simps [simp del]

definition find_sit5_magic :: "byte list \<Rightarrow> nat option" where
  "find_sit5_magic src =
     (if length src < 80 then None else find_sit5_loop src (length src - 80) 0)"

text \<open>\<^verbatim>\<open>entry_list_push\<close>, with the entry to store as an argument.\<close>

definition entry_list_push :: "sit_entry list \<Rightarrow> sit_entry \<Rightarrow> error + sit_entry list" where
  "entry_list_push entries e =
     (if length entries \<ge> SIT_MAX_FILES then Inl SIT_too_many_files else Inr (entries @ [e]))"

text \<open>
  The path of a classic entry: the folder names on the stack, each followed by
  \<open>/\<close>, as long as they fit into \<^verbatim>\<open>char path[512]\<close>, then the file name.
\<close>

fun classic_dirs_path :: "byte list list \<Rightarrow> byte list \<Rightarrow> byte list" where
  "classic_dirs_path [] path = path"
| "classic_dirs_path (d # ds) path =
     (let sl = length (cstr d) in
      if length path + sl + 1 \<ge> 512 then path
      else classic_dirs_path ds (path @ cstr d @ [0x2F]))"

definition classic_path :: "byte list list \<Rightarrow> byte list \<Rightarrow> byte list" where
  "classic_path dirs fname =
     (let path = classic_dirs_path dirs [];
          p = length path
      in path @ take (512 - 1 - p) (cstr fname))"

text \<open>
  The loop \<^verbatim>\<open>while (done < file_count)\<close> of \<^verbatim>\<open>parse_classic\<close>. \<open>dirs\<close> is the folder
  stack \<^verbatim>\<open>dirs[0 .. depth)\<close>. \<^verbatim>\<open>cursor\<close> is a \<^verbatim>\<open>uint32_t\<close>: its two assignments are
  taken modulo \<open>2 ^ 32\<close>. \<^verbatim>\<open>done\<close> stays below the 16-bit \<^verbatim>\<open>file_count\<close>.
\<close>

function parse_classic_loop ::
  "byte list \<Rightarrow> nat \<Rightarrow> nat \<Rightarrow> nat \<Rightarrow> nat \<Rightarrow> byte list list \<Rightarrow> sit_entry list
     \<Rightarrow> error + sit_entry list" where
  "parse_classic_loop blob archive_off file_count cursor done dirs entries =
     (let base = drop archive_off blob;
          avail = length blob - archive_off
      in
      if \<not> done < file_count then Inr entries
      else if cursor + SIT_ENTRY_HDR_SIZE > avail then Inr entries
      else
        let hdr = drop cursor base;
            rm = hdr ! 0;
            dm = hdr ! 1
        in
        if rm = SIT_FOLDER_START \<or> dm = SIT_FOLDER_START then
          (let nlen = unat (hdr ! 2);
               dirs = (if length dirs < SIT_MAX_DEPTH \<and> nlen < 64
                       then dirs @ [take nlen (drop 3 hdr)] else dirs)
           in parse_classic_loop blob archive_off file_count
                ((cursor + SIT_ENTRY_HDR_SIZE) mod 2 ^ 32) (done + 1) dirs entries)
        else if rm = SIT_FOLDER_END \<or> dm = SIT_FOLDER_END then
          parse_classic_loop blob archive_off file_count
            ((cursor + SIT_ENTRY_HDR_SIZE) mod 2 ^ 32) (done + 1) (butlast dirs) entries
        else if rm AND 0xE0 \<noteq> 0 \<or> dm AND 0xE0 \<noteq> 0 then
          parse_classic_loop blob archive_off file_count
            ((cursor + SIT_ENTRY_HDR_SIZE) mod 2 ^ 32) (done + 1) dirs entries
        else
          let nlen = unat (hdr ! 2);
              nlen = (if nlen \<ge> 64 then 63 else nlen);
              fname = take nlen (drop 3 hdr);
              path = classic_path dirs fname;
              ftype = rd32be (drop 66 hdr);
              fcreator = rd32be (drop 70 hdr);
              fflags = rd16be (drop 74 hdr);
              rulen = rd32be (drop 84 hdr);
              dulen = rd32be (drop 88 hdr);
              rclen = rd32be (drop 92 hdr);
              dclen = rd32be (drop 96 hdr);
              rcrc = rd16be (drop 100 hdr);
              dcrc = rd16be (drop 102 hdr);
              rsrc_ptr = archive_off + cursor + SIT_ENTRY_HDR_SIZE;
              data_ptr = rsrc_ptr + unat rclen
          in
          if data_ptr + unat dclen > length blob then Inl SIT_classic_fork_past_end
          else
            (case entry_list_push entries
                    \<lparr> ent_name = take 511 (cstr path),
                      ent_mac_type = ftype, ent_mac_creator = fcreator,
                      ent_finder_flags = fflags,
                      ent_data_fork =
                        \<lparr> fork_raw_len = dulen, fork_packed_len = dclen, fork_crc = dcrc,
                          fork_method = dm AND 0x0F, fork_data = drop data_ptr blob \<rparr>,
                      ent_rsrc_fork =
                        \<lparr> fork_raw_len = rulen, fork_packed_len = rclen, fork_crc = rcrc,
                          fork_method = rm AND 0x0F, fork_data = drop rsrc_ptr blob \<rparr>,
                      ent_has_rsrc = (rulen > 0) \<rparr> of
               Inl e \<Rightarrow> Inl e
             | Inr entries \<Rightarrow>
                 parse_classic_loop blob archive_off file_count
                   (((data_ptr - archive_off) + unat dclen) mod 2 ^ 32) (done + 1) dirs entries))"
  by pat_completeness auto
termination
  by (relation "measure (\<lambda>(blob, archive_off, file_count, cursor, done, dirs, entries).
                           file_count - done)") auto

declare parse_classic_loop.simps [simp del]

definition parse_classic :: "byte list \<Rightarrow> nat \<Rightarrow> error + sit_entry list" where
  "parse_classic blob archive_off =
     (let base = drop archive_off blob;
          avail = length blob - archive_off
      in
      if avail < SIT_CLASSIC_HDR_SIZE then Inl SIT_classic_too_small
      else parse_classic_loop blob archive_off (unat (rd16be (drop 4 base)))
             SIT_CLASSIC_HDR_SIZE 0 [] [])"

text \<open>
  \<^verbatim>\<open>build_file_list\<close>. The source first counts the entries with a nonempty fork and
  then walks the entries again, skipping the others; \<open>files\<close> is \<^verbatim>\<open>files[0 .. fi)\<close>.
\<close>

fun build_file_loop ::
  "fork_decoder \<Rightarrow> fork_decoder \<Rightarrow> sit_entry list \<Rightarrow> peel_file list \<Rightarrow> error + peel_file list" where
  "build_file_loop peel_sit13 peel_sit15 [] files = Inr files"
| "build_file_loop peel_sit13 peel_sit15 (ent # entries) files =
     (if fork_raw_len (ent_data_fork ent) = 0
         \<and> \<not> (ent_has_rsrc ent \<and> fork_raw_len (ent_rsrc_fork ent) > 0)
      then build_file_loop peel_sit13 peel_sit15 entries files
      else
        (case (if fork_raw_len (ent_data_fork ent) > 0
               then decompress_fork peel_sit13 peel_sit15 (ent_data_fork ent) else Inr []) of
           Inl e \<Rightarrow> Inl e
         | Inr dfork \<Rightarrow>
             (case (if ent_has_rsrc ent \<and> fork_raw_len (ent_rsrc_fork ent) > 0
                    then decompress_fork peel_sit13 peel_sit15 (ent_rsrc_fork ent) else Inr []) of
                Inl e \<Rightarrow> Inl e
              | Inr rfork \<Rightarrow>
                  build_file_loop peel_sit13 peel_sit15 entries
                    (files @ [\<lparr> meta_name = take 255 (cstr (ent_name ent)),
                                mac_type = ent_mac_type ent,
                                mac_creator = ent_mac_creator ent,
                                finder_flags = ent_finder_flags ent,
                                data_fork = dfork, resource_fork = rfork \<rparr>]))))"

definition build_file_list ::
  "fork_decoder \<Rightarrow> fork_decoder \<Rightarrow> sit_entry list \<Rightarrow> error + peel_file list" where
  "build_file_list peel_sit13 peel_sit15 entries =
     (if length entries = 0 then Inr []
      else build_file_loop peel_sit13 peel_sit15 entries [])"

definition sit_detect :: "byte list \<Rightarrow> bool" where
  "sit_detect src =
     (if find_classic_magic src \<noteq> None then True
      else if find_sit5_magic src \<noteq> None then True
      else False)"

text \<open>
  \<^verbatim>\<open>peel_sit\<close>. The SIT5 parser is a parameter, like the decoders of methods 13
  and 15: it is given the archive and the offset of the banner.
\<close>

type_synonym sit5_parser = "byte list \<Rightarrow> nat \<Rightarrow> error + sit_entry list"

definition peel_sit ::
  "sit5_parser \<Rightarrow> fork_decoder \<Rightarrow> fork_decoder \<Rightarrow> byte list \<Rightarrow> error + peel_file list" where
  "peel_sit parse_sit5 peel_sit13 peel_sit15 src =
     (let classic_off = find_classic_magic src;
          sit5_off = find_sit5_magic src
      in
      if classic_off \<noteq> None \<and> (sit5_off = None \<or> the classic_off \<le> the sit5_off) then
        (case parse_classic src (the classic_off) of
           Inl e \<Rightarrow> Inl e
         | Inr entries \<Rightarrow> build_file_list peel_sit13 peel_sit15 entries)
      else if sit5_off \<noteq> None then
        (case parse_sit5 src (the sit5_off) of
           Inl e \<Rightarrow> Inl e
         | Inr entries \<Rightarrow> build_file_list peel_sit13 peel_sit15 entries)
      else Inl SIT_no_signature)"

section \<open>CRC-16/XMODEM (internal.h declares it; its definition is not in the sources)\<close>

text \<open>
  Modelled from the spec: \<^verbatim>\<open>crc16_ccitt\<close> and \<^verbatim>\<open>crc16_ccitt_update\<close>, whose
  implementation file is missing. The spec gives CRC-16/XMODEM: polynomial \<open>0x1021\<close>,
  initial value 0, no reflection, no final XOR; the bit-at-a-time form below is the one
  of hqx.md, appendix C.3.
\<close>

fun crc16_ccitt_bits :: "nat \<Rightarrow> u16 \<Rightarrow> u16" where
  "crc16_ccitt_bits 0 crc = crc"
| "crc16_ccitt_bits (Suc n) crc =
     crc16_ccitt_bits n
       (if crc AND 0x8000 \<noteq> 0 then push_bit 1 crc XOR 0x1021 else push_bit 1 crc)"

fun crc16_ccitt_update :: "u16 \<Rightarrow> byte list \<Rightarrow> u16" where
  "crc16_ccitt_update crc [] = crc"
| "crc16_ccitt_update crc (b # bs) =
     crc16_ccitt_update (crc16_ccitt_bits 8 (crc XOR push_bit 8 (ucast b))) bs"

definition crc16_ccitt :: "byte list \<Rightarrow> u16" where
  "crc16_ccitt buf = crc16_ccitt_update 0 buf"

section \<open>MacBinary (bin.c)\<close>

definition MB_BLOCK :: nat where "MB_BLOCK = 128"
definition MB_NAME_MAX :: nat where "MB_NAME_MAX = 63"

definition pad128 :: "nat \<Rightarrow> nat" where
  "pad128 n = (MB_BLOCK - (n mod MB_BLOCK)) mod MB_BLOCK"

definition looks_like_sit :: "byte list \<Rightarrow> bool" where
  "looks_like_sit buf =
     (if length buf \<ge> 80
         \<and> bytes_at buf 0 (bytes_of ''StuffIt (c)1997-'')
         \<and> bytes_at buf 20
              (bytes_of '' Aladdin Systems, Inc., http://www.aladdinsys.com/StuffIt/'')
      then True
      else if length buf \<ge> 14
         \<and> list_ex (\<lambda>sig. bytes_at buf 0 sig \<and> bytes_at buf 10 (bytes_of ''rLau'')) classic_sigs
      then True
      else False)"

definition bin_validate :: "byte list \<Rightarrow> bool" where
  "bin_validate hdr =
     (if hdr ! 0 \<noteq> 0 then False
      else if hdr ! 74 \<noteq> 0 then False
      else
        let name_len = hdr ! 1 in
        if name_len = 0 \<or> unat name_len > MB_NAME_MAX then False
        else
          let crc_calc = crc16_ccitt (take 124 hdr);
              crc_stored = rd16be (drop 124 hdr)
          in if crc_calc \<noteq> crc_stored \<and> hdr ! 82 \<noteq> 0 then False else True)"

record bin_header =
  bh_name :: "byte list"
  bh_name_len :: byte
  bh_mac_type :: u32
  bh_mac_creator :: u32
  bh_finder_flags :: u16
  bh_data_len :: u32
  bh_rsrc_len :: u32
  bh_sec_hdr_len :: u16

definition bin_parse_header :: "byte list \<Rightarrow> bin_header" where
  "bin_parse_header hdr =
     (let name_len = hdr ! 1;
          copy = (if unat name_len > MB_NAME_MAX then MB_NAME_MAX else unat name_len)
      in \<lparr> bh_name = take copy (drop 2 hdr),
           bh_name_len = name_len,
           bh_mac_type = rd32be (drop 65 hdr),
           bh_mac_creator = rd32be (drop 69 hdr),
           bh_finder_flags = push_bit 8 (ucast (hdr ! 73)) OR ucast (hdr ! 101),
           bh_data_len = rd32be (drop 83 hdr),
           bh_rsrc_len = rd32be (drop 87 hdr),
           bh_sec_hdr_len = rd16be (drop 120 hdr) \<rparr>)"

definition BIN_FINDER_CLEAR_MASK :: u16 where
  "BIN_FINDER_CLEAR_MASK = push_bit 0 1 OR push_bit 1 1 OR push_bit 8 1 OR push_bit 9 1 OR push_bit 10 1"

definition bin_decode :: "byte list \<Rightarrow> error + peel_file" where
  "bin_decode src =
     (let len = length src in
      if len < MB_BLOCK then Inl (Bin_too_short len)
      else if \<not> bin_validate src then Inl Bin_invalid_header
      else
        let hdr = bin_parse_header src in
        if bh_data_len hdr > 0x7FFFFFFF \<or> bh_rsrc_len hdr > 0x7FFFFFFF then Inl Bin_fork_too_long
        else
          let sec = unat (bh_sec_hdr_len hdr);
              data_len = unat (bh_data_len hdr);
              rsrc_len = unat (bh_rsrc_len hdr);
              pos = (if sec > 0 then MB_BLOCK + (sec + pad128 sec) else MB_BLOCK)
          in
          if pos + data_len > len then Inl Bin_data_truncated
          else
            let dfork = (if data_len > 0 then take data_len (drop pos src) else []);
                pos = pos + (data_len + pad128 data_len)
            in
            if pos + rsrc_len > len then Inl Bin_rsrc_truncated
            else
              let rfork = (if rsrc_len > 0 then take rsrc_len (drop pos src) else []);
                  nl = unat (bh_name_len hdr);
                  nl = (if nl > 256 - 1 then 256 - 1 else nl)
              in Inr \<lparr> meta_name = cstr (take nl (bh_name hdr)),
                       mac_type = bh_mac_type hdr,
                       mac_creator = bh_mac_creator hdr,
                       finder_flags = bh_finder_flags hdr AND NOT BIN_FINDER_CLEAR_MASK,
                       data_fork = dfork, resource_fork = rfork \<rparr>)"

definition bin_detect :: "byte list \<Rightarrow> bool" where
  "bin_detect src = (if length src < MB_BLOCK then False else bin_validate src)"

definition peel_bin :: "byte list \<Rightarrow> error + byte list" where
  "peel_bin src =
     (case bin_decode src of
        Inl e \<Rightarrow> Inl e
      | Inr file \<Rightarrow>
          let data_is_sit = (data_fork file \<noteq> [] \<and> looks_like_sit (data_fork file)) in
          if data_is_sit \<or> length (resource_fork file) = 0
          then Inr (data_fork file)
          else Inr (resource_fork file))"

definition peel_bin_file :: "byte list \<Rightarrow> error + peel_file" where
  "peel_bin_file src = bin_decode src"

section \<open>BinHex 4.0 (hqx.c)\<close>

definition HQX_PREAMBLE :: "byte list" where
  "HQX_PREAMBLE = bytes_of ''(This file must be converted with BinHex''"

definition RLE_MARKER :: byte where "RLE_MARKER = 0x90"
definition HQX_NAME_MAX :: nat where "HQX_NAME_MAX = 63"
definition HQX_FINDER_CLEAR_MASK :: u16 where "HQX_FINDER_CLEAR_MASK = 0x4084"

text \<open>The 64 characters of \<^verbatim>\<open>hqx_alphabet\<close>, from \<open>!\<close> to \<open>r\<close>, as byte values.\<close>

definition hqx_alphabet :: "byte list" where
  "hqx_alphabet = [
     0x21, 0x22, 0x23, 0x24, 0x25, 0x26, 0x27, 0x28, 0x29, 0x2A, 0x2B, 0x2C, 0x2D, 0x30, 0x31, 0x32,
     0x33, 0x34, 0x35, 0x36, 0x38, 0x39, 0x40, 0x41, 0x42, 0x43, 0x44, 0x45, 0x46, 0x47, 0x48, 0x49,
     0x4A, 0x4B, 0x4C, 0x4D, 0x4E, 0x50, 0x51, 0x52, 0x53, 0x54, 0x55, 0x56, 0x58, 0x59, 0x5A, 0x5B,
     0x60, 0x61, 0x62, 0x63, 0x64, 0x65, 0x66, 0x68, 0x69, 0x6A, 0x6B, 0x6C, 0x6D, 0x70, 0x71, 0x72]"

text \<open>
  The reverse table \<^verbatim>\<open>dec->rev\<close> that \<^verbatim>\<open>hqx_decoder_init\<close> builds: \<open>0xFF\<close>
  everywhere, then \<^verbatim>\<open>rev[hqx_alphabet[i]] = i\<close> for \<open>i\<close> from 0 to 63.
\<close>

definition hqx_rev :: "byte \<Rightarrow> byte" where
  "hqx_rev = fold (\<lambda>i rev. rev(hqx_alphabet ! i := of_nat i)) [0 ..< 64] (\<lambda>c. 0xFF)"

function hqx_find_preamble_loop :: "byte list \<Rightarrow> nat \<Rightarrow> nat option" where
  "hqx_find_preamble_loop src i =
     (if i + length HQX_PREAMBLE \<le> length src then
        (if bytes_at src i HQX_PREAMBLE then
           (let j = i + length HQX_PREAMBLE;
                j = j + length (takeWhile (\<lambda>c. c \<noteq> 0x0A \<and> c \<noteq> 0x0D) (drop j src));
                j = j + length (takeWhile (\<lambda>c. c = 0x0A \<or> c = 0x0D) (drop j src))
            in Some j)
         else hqx_find_preamble_loop src (i + 1))
      else None)"
  by pat_completeness auto
termination
  by (relation "measure (\<lambda>(src, i). length src + 1 - i)") auto

declare hqx_find_preamble_loop.simps [simp del]

definition hqx_find_preamble :: "byte list \<Rightarrow> nat option" where
  "hqx_find_preamble src =
     (if length src < length HQX_PREAMBLE then None else hqx_find_preamble_loop src 0)"

definition hqx_find_start_colon :: "byte list \<Rightarrow> nat \<Rightarrow> nat option" where
  "hqx_find_start_colon src from =
     (let i = from + length (takeWhile (\<lambda>c. c \<noteq> 0x3A) (drop from src))
      in if i < length src then Some (i + 1) else None)"

record hqx_decoder =
  hq_src :: "byte list"
  hq_src_pos :: nat
  hq_accum :: u32
  hq_accum_bits :: nat
  hq_rle_marker_seen :: bool
  hq_rle_prev :: byte
  hq_rle_pending :: int

definition hqx_decoder_init :: "byte list \<Rightarrow> nat \<Rightarrow> hqx_decoder" where
  "hqx_decoder_init src payload_start =
     \<lparr> hq_src = src, hq_src_pos = payload_start, hq_accum = 0, hq_accum_bits = 0,
       hq_rle_marker_seen = False, hq_rle_prev = 0, hq_rle_pending = 0 \<rparr>"

text \<open>
  \<^verbatim>\<open>hqx_next_char\<close> on the input and \<^verbatim>\<open>src_pos\<close>: the character (\<open>None\<close> for \<open>-1\<close>)
  and the new \<^verbatim>\<open>src_pos\<close>.
\<close>

function hqx_next_char :: "byte list \<Rightarrow> nat \<Rightarrow> byte option \<times> nat" where
  "hqx_next_char src pos =
     (if pos < length src then
        (let ch = src ! pos in
         if ch = 0x3A then (None, pos + 1)
         else if ch = 0x0D \<or> ch = 0x0A \<or> ch = 0x09 \<or> ch = 0x20 then hqx_next_char src (pos + 1)
         else (Some ch, pos + 1))
      else (None, pos))"
  by pat_completeness auto
termination
  by (relation "measure (\<lambda>(src, pos). length src - pos)") auto

declare hqx_next_char.simps [simp del]

text \<open>
  The decoding functions return \<open>Inl\<close> for \<^verbatim>\<open>decode_abort\<close>, and otherwise the byte
  (\<open>None\<close> for \<open>-1\<close>, the end of the stream) with the decoder state.
\<close>

function hqx_raw_byte :: "hqx_decoder \<Rightarrow> error + (byte option \<times> hqx_decoder)" where
  "hqx_raw_byte dec =
     (if hq_accum_bits dec < 8 then
        (case hqx_next_char (hq_src dec) (hq_src_pos dec) of
           (None, pos) \<Rightarrow> Inr (None, dec\<lparr> hq_src_pos := pos \<rparr>)
         | (Some ch, pos) \<Rightarrow>
             let val = hqx_rev ch in
             if val > 63 then Inl (Hqx_invalid_char ch)
             else hqx_raw_byte
                    (dec\<lparr> hq_src_pos := pos,
                          hq_accum := push_bit 6 (hq_accum dec) OR ucast val,
                          hq_accum_bits := hq_accum_bits dec + 6 \<rparr>))
      else
        let bits = hq_accum_bits dec - 8
        in Inr (Some (ucast (drop_bit bits (hq_accum dec) AND 0xFF)),
                dec\<lparr> hq_accum_bits := bits \<rparr>))"
  by pat_completeness auto
termination
  by (relation "measure (\<lambda>dec. 8 - hq_accum_bits dec)") auto

declare hqx_raw_byte.simps [simp del]

text \<open>
  The \<^verbatim>\<open>for (;;)\<close> loop of \<^verbatim>\<open>hqx_decoded_byte\<close>. \<^verbatim>\<open>hqx_raw_byte\<close> does not touch
  \<^verbatim>\<open>rle_marker_seen\<close>, so the flag tested after the call is the one of \<open>dec\<close>.
\<close>

function hqx_decoded_loop :: "hqx_decoder \<Rightarrow> error + (byte option \<times> hqx_decoder)" where
  "hqx_decoded_loop dec =
     (case hqx_raw_byte dec of
        Inl e \<Rightarrow> Inl e
      | Inr (None, dec1) \<Rightarrow> Inr (None, dec1)
      | Inr (Some raw, dec1) \<Rightarrow>
          if hq_rle_marker_seen dec then
            (let dec1 = dec1\<lparr> hq_rle_marker_seen := False \<rparr> in
             if raw = 0x00 then Inr (Some RLE_MARKER, dec1\<lparr> hq_rle_prev := RLE_MARKER \<rparr>)
             else if raw = 0x01 then Inl Hqx_illegal_rle_count
             else Inr (Some (hq_rle_prev dec1), dec1\<lparr> hq_rle_pending := uint raw - 2 \<rparr>))
          else if raw = RLE_MARKER then hqx_decoded_loop (dec1\<lparr> hq_rle_marker_seen := True \<rparr>)
          else Inr (Some raw, dec1\<lparr> hq_rle_prev := raw \<rparr>))"
  by pat_completeness auto
termination
  by (relation "measure (\<lambda>dec. if hq_rle_marker_seen dec then 0 else 1)") auto

declare hqx_decoded_loop.simps [simp del]

definition hqx_decoded_byte :: "hqx_decoder \<Rightarrow> error + (byte option \<times> hqx_decoder)" where
  "hqx_decoded_byte dec =
     (if hq_rle_pending dec > 0
      then Inr (Some (hq_rle_prev dec), dec\<lparr> hq_rle_pending := hq_rle_pending dec - 1 \<rparr>)
      else hqx_decoded_loop dec)"

text \<open>
  \<^verbatim>\<open>hqx_read_bytes\<close>: \<open>n\<close> counts the bytes still to read, which is also the number
  reported when the stream ends early.
\<close>

fun hqx_read_bytes :: "hqx_decoder \<Rightarrow> nat \<Rightarrow> error + (byte list \<times> hqx_decoder)" where
  "hqx_read_bytes dec 0 = Inr ([], dec)"
| "hqx_read_bytes dec (Suc n) =
     (case hqx_decoded_byte dec of
        Inl e \<Rightarrow> Inl e
      | Inr (None, dec1) \<Rightarrow> Inl (Hqx_premature_end (Suc n))
      | Inr (Some b, dec1) \<Rightarrow>
          (case hqx_read_bytes dec1 n of
             Inl e \<Rightarrow> Inl e
           | Inr (bs, dec2) \<Rightarrow> Inr (b # bs, dec2)))"

record hqx_header =
  hh_name :: "byte list"
  hh_name_len :: byte
  hh_mac_type :: u32
  hh_mac_creator :: u32
  hh_finder_flags :: u16
  hh_data_len :: u32
  hh_rsrc_len :: u32

definition hqx_parse_header :: "hqx_decoder \<Rightarrow> error + (hqx_header \<times> hqx_decoder)" where
  "hqx_parse_header dec =
     (case hqx_read_bytes dec 1 of
        Inl e \<Rightarrow> Inl e
      | Inr (b0, dec1) \<Rightarrow>
          let name_len_byte = b0 ! 0 in
          if name_len_byte = 0 \<or> unat name_len_byte > HQX_NAME_MAX
          then Inl (Hqx_invalid_name_length name_len_byte)
          else
            let payload_len = unat name_len_byte + 19 in
            (case hqx_read_bytes dec1 (payload_len + 2) of
               Inl e \<Rightarrow> Inl e
             | Inr (rest, dec2) \<Rightarrow>
                 let buf = name_len_byte # rest in
                 if crc16_ccitt buf \<noteq> 0 then Inl Hqx_header_crc_mismatch
                 else
                   let n = unat name_len_byte;
                       copy_len = (if n > HQX_NAME_MAX then HQX_NAME_MAX else n)
                   in Inr (\<lparr> hh_name = take copy_len (drop 1 buf),
                              hh_name_len = name_len_byte,
                              hh_mac_type = rd32be (drop (2 + n) buf),
                              hh_mac_creator = rd32be (drop (6 + n) buf),
                              hh_finder_flags = rd16be (drop (10 + n) buf),
                              hh_data_len = rd32be (drop (12 + n) buf),
                              hh_rsrc_len = rd32be (drop (16 + n) buf) \<rparr>, dec2)))"

text \<open>The loop of \<^verbatim>\<open>hqx_read_fork\<close> that fills the growable buffer in chunks of 4096.\<close>

function hqx_read_chunks ::
  "hqx_decoder \<Rightarrow> nat \<Rightarrow> byte list \<Rightarrow> error + (byte list \<times> hqx_decoder)" where
  "hqx_read_chunks dec remaining gbuf =
     (if remaining > 0 then
        (let batch = (if remaining < 4096 then remaining else 4096) in
         case hqx_read_bytes dec batch of
           Inl e \<Rightarrow> Inl e
         | Inr (chunk, dec1) \<Rightarrow> hqx_read_chunks dec1 (remaining - batch) (gbuf @ chunk))
      else Inr (gbuf, dec))"
  by pat_completeness auto
termination
  by (relation "measure (\<lambda>(dec, remaining, gbuf). remaining)") auto

declare hqx_read_chunks.simps [simp del]

definition hqx_read_fork ::
  "hqx_decoder \<Rightarrow> u32 \<Rightarrow> string \<Rightarrow> error + (byte list \<times> hqx_decoder)" where
  "hqx_read_fork dec fork_len fork_name =
     (if fork_len = 0 then
        (case hqx_read_bytes dec 2 of
           Inl e \<Rightarrow> Inl e
         | Inr (crc_bytes, dec1) \<Rightarrow>
             let stored_crc = rd16be crc_bytes in
             if stored_crc \<noteq> 0x0000 then Inl (Hqx_fork_crc_mismatch_empty fork_name)
             else Inr ([], dec1))
      else
        (case hqx_read_chunks dec (unat fork_len) [] of
           Inl e \<Rightarrow> Inl e
         | Inr (gbuf, dec1) \<Rightarrow>
             (case hqx_read_bytes dec1 2 of
                Inl e \<Rightarrow> Inl e
              | Inr (crc_bytes, dec2) \<Rightarrow>
                  let crc = crc16_ccitt gbuf;
                      crc = crc16_ccitt_update crc crc_bytes
                  in if crc \<noteq> 0 then Inl (Hqx_fork_crc_mismatch fork_name)
                     else Inr (gbuf, dec2))))"

definition hqx_decode :: "byte list \<Rightarrow> error + peel_file" where
  "hqx_decode src =
     (case hqx_find_preamble src of
        None \<Rightarrow> Inl Hqx_no_preamble
      | Some after_preamble \<Rightarrow>
          (case hqx_find_start_colon src after_preamble of
             None \<Rightarrow> Inl Hqx_no_start_colon
           | Some payload_start \<Rightarrow>
               (case hqx_parse_header (hqx_decoder_init src payload_start) of
                  Inl e \<Rightarrow> Inl e
                | Inr (hdr, dec1) \<Rightarrow>
                    (case hqx_read_fork dec1 (hh_data_len hdr) ''data'' of
                       Inl e \<Rightarrow> Inl e
                     | Inr (dfork, dec2) \<Rightarrow>
                         (case hqx_read_fork dec2 (hh_rsrc_len hdr) ''resource'' of
                            Inl e \<Rightarrow> Inl e
                          | Inr (rfork, dec3) \<Rightarrow>
                              let nl = unat (hh_name_len hdr);
                                  nl = (if nl > 256 - 1 then 256 - 1 else nl)
                              in Inr \<lparr> meta_name = cstr (take nl (hh_name hdr)),
                                       mac_type = hh_mac_type hdr,
                                       mac_creator = hh_mac_creator hdr,
                                       finder_flags =
                                         hh_finder_flags hdr AND NOT HQX_FINDER_CLEAR_MASK,
                                       data_fork = dfork, resource_fork = rfork \<rparr>)))))"

definition hqx_detect :: "byte list \<Rightarrow> bool" where
  "hqx_detect src = (hqx_find_preamble src \<noteq> None)"

definition peel_hqx :: "byte list \<Rightarrow> error + byte list" where
  "peel_hqx src = (case hqx_decode src of Inl e \<Rightarrow> Inl e | Inr file \<Rightarrow> Inr (data_fork file))"

definition peel_hqx_file :: "byte list \<Rightarrow> error + peel_file" where
  "peel_hqx_file src = hqx_decode src"

section \<open>The peeling driver (peeler.c)\<close>

definition MAX_PEEL_DEPTH :: nat where "MAX_PEEL_DEPTH = 32"

text \<open>
  \<^verbatim>\<open>peel_format_t\<close>. An entry of the handler table carries its kind and, of its two
  function pointers, the one that is not null: \<open>fmt_handler\<close> is the kind together with
  that function.
\<close>

datatype peel_handler =
    PEEL_FMT_WRAPPER "byte list \<Rightarrow> error + byte list"
  | PEEL_FMT_ARCHIVE "byte list \<Rightarrow> error + peel_file list"

record peel_format =
  fmt_name :: string
  fmt_detect :: "byte list \<Rightarrow> bool"
  fmt_handler :: peel_handler

text \<open>
  \<^verbatim>\<open>g_formats\<close>. The Compact Pro extractor, the SIT5 parser and the decoders of the
  StuffIt methods 13 and 15 are parameters of the table.
\<close>

definition g_formats ::
  "(byte list \<Rightarrow> error + peel_file list) \<Rightarrow> sit5_parser \<Rightarrow> fork_decoder \<Rightarrow> fork_decoder
     \<Rightarrow> peel_format list" where
  "g_formats peel_cpt parse_sit5 peel_sit13 peel_sit15 =
     [\<lparr> fmt_name = ''hqx'', fmt_detect = hqx_detect, fmt_handler = PEEL_FMT_WRAPPER peel_hqx \<rparr>,
      \<lparr> fmt_name = ''bin'', fmt_detect = bin_detect, fmt_handler = PEEL_FMT_WRAPPER peel_bin \<rparr>,
      \<lparr> fmt_name = ''sit'', fmt_detect = sit_detect,
        fmt_handler = PEEL_FMT_ARCHIVE (peel_sit parse_sit5 peel_sit13 peel_sit15) \<rparr>,
      \<lparr> fmt_name = ''cpt'', fmt_detect = cpt_detect, fmt_handler = PEEL_FMT_ARCHIVE peel_cpt \<rparr>]"

definition detect_format :: "peel_format list \<Rightarrow> byte list \<Rightarrow> peel_format option" where
  "detect_format fmts src = find (\<lambda>fmt. fmt_detect fmt src) fmts"

definition peel_detect :: "peel_format list \<Rightarrow> byte list \<Rightarrow> string option" where
  "peel_detect fmts src = map_option fmt_name (detect_format fmts src)"

text \<open>
  \<^verbatim>\<open>wrap_single_file\<close>: one file with zeroed metadata, an empty resource fork and the
  buffer (owned or copied) as data fork.
\<close>

definition single_file :: "byte list \<Rightarrow> peel_file" where
  "single_file src =
     \<lparr> meta_name = [], mac_type = 0, mac_creator = 0, finder_flags = 0,
       data_fork = src, resource_fork = [] \<rparr>"

definition wrap_single_file :: "byte list \<Rightarrow> error + peel_file list" where
  "wrap_single_file src = Inr [single_file src]"

text \<open>
  The loop \<^verbatim>\<open>for (wrap_depth = 0; wrap_depth < MAX_PEEL_DEPTH; wrap_depth++)\<close> of
  \<^verbatim>\<open>peel_depth\<close>. It is left by an error of a handler, by \<^verbatim>\<open>break\<close> or the end of
  the count with the working buffer, or with the file list of an archive.
\<close>

datatype wrap_result =
    Wrap_failed error
  | Wrap_plain "byte list"
  | Wrap_archive "peel_file list"

function peel_wrap_loop :: "peel_format list \<Rightarrow> byte list \<Rightarrow> nat \<Rightarrow> wrap_result" where
  "peel_wrap_loop fmts cur wrap_depth =
     (if wrap_depth < MAX_PEEL_DEPTH then
        (case detect_format fmts cur of
           None \<Rightarrow> Wrap_plain cur
         | Some fmt \<Rightarrow>
             (case fmt_handler fmt of
                PEEL_FMT_WRAPPER peel_wrapper \<Rightarrow>
                  (case peel_wrapper cur of
                     Inl e \<Rightarrow> Wrap_failed e
                   | Inr decoded \<Rightarrow> peel_wrap_loop fmts decoded (wrap_depth + 1))
              | PEEL_FMT_ARCHIVE peel_archive \<Rightarrow>
                  (case peel_archive cur of
                     Inl e \<Rightarrow> Wrap_failed e
                   | Inr result \<Rightarrow> Wrap_archive result)))
      else Wrap_plain cur)"
  by pat_completeness auto
termination
  by (relation "measure (\<lambda>(fmts, cur, wrap_depth). MAX_PEEL_DEPTH - wrap_depth)") auto

declare peel_wrap_loop.simps [simp del]

text \<open>
  The format \<^verbatim>\<open>recursive_peel_files\<close> follows for a file, if any: only a wrapper, and
  only when the data fork is not empty.
\<close>

definition repeel_format :: "peel_format list \<Rightarrow> peel_file \<Rightarrow> peel_format option" where
  "repeel_format fmts f =
     (if data_fork f \<noteq> [] then
        (case detect_format fmts (data_fork f) of
           None \<Rightarrow> None
         | Some fmt \<Rightarrow>
             (case fmt_handler fmt of
                PEEL_FMT_WRAPPER peel_wrapper \<Rightarrow> Some fmt
              | PEEL_FMT_ARCHIVE peel_archive \<Rightarrow> None))
      else None)"

text \<open>
  \<^verbatim>\<open>peel_depth\<close> and \<^verbatim>\<open>recursive_peel_files\<close>. The latter appends to its result array
  the file itself or the files of the sub-peel; here the list is built front to back.
\<close>

function peel_depth :: "peel_format list \<Rightarrow> byte list \<Rightarrow> nat \<Rightarrow> error + peel_file list"
  and recursive_peel_files :: "peel_format list \<Rightarrow> peel_file list \<Rightarrow> nat \<Rightarrow> peel_file list" where
  "peel_depth fmts src depth =
     (if depth \<ge> MAX_PEEL_DEPTH then wrap_single_file src
      else
        (case peel_wrap_loop fmts src 0 of
           Wrap_failed e \<Rightarrow> Inl e
         | Wrap_plain cur \<Rightarrow> wrap_single_file cur
         | Wrap_archive result \<Rightarrow> Inr (recursive_peel_files fmts result depth)))"
| "recursive_peel_files fmts [] depth = []"
| "recursive_peel_files fmts (f # list) depth =
     (case repeel_format fmts f of
        None \<Rightarrow> f # recursive_peel_files fmts list depth
      | Some fmt \<Rightarrow>
          (case peel_depth fmts (data_fork f) (depth + 1) of
             Inl sub_err \<Rightarrow> f # recursive_peel_files fmts list depth
           | Inr sub \<Rightarrow> sub @ recursive_peel_files fmts list depth))"
  by pat_completeness auto
termination
  by (relation "inv_image (less_than <*lex*> less_than)
        (\<lambda>x. case x of
           Inl (fmts, src, depth) \<Rightarrow>
             (if depth \<ge> MAX_PEEL_DEPTH then 0 else 2 * (MAX_PEEL_DEPTH - depth) + 1, 0)
         | Inr (fmts, list, depth) \<Rightarrow>
             (if depth \<ge> MAX_PEEL_DEPTH then 1 else 2 * (MAX_PEEL_DEPTH - depth), length list))")
     (auto simp: MAX_PEEL_DEPTH_def)

declare peel_depth.simps [simp del]

definition peel :: "peel_format list \<Rightarrow> byte list \<Rightarrow> error + peel_file list" where
  "peel fmts src = peel_depth fmts src 0"

section \<open>Inputs of the worked examples\<close>

text \<open>
  The handler table with its four parameters filled in. None of the examples below
  reaches a Compact Pro archive, a SIT5 archive or a fork of method 13 or 15, so these
  functions are never applied.
\<close>

definition unused_peel_cpt :: "byte list \<Rightarrow> error + peel_file list" where
  "unused_peel_cpt src = Inl (External_error ''cpt'')"

definition unused_parse_sit5 :: sit5_parser where
  "unused_parse_sit5 blob off = Inl (External_error ''sit5'')"

definition unused_fork_decoder :: fork_decoder where
  "unused_fork_decoder src packed_len raw_len = Inl (External_error ''sit13/sit15'')"

definition example_formats :: "peel_format list" where
  "example_formats =
     g_formats unused_peel_cpt unused_parse_sit5 unused_fork_decoder unused_fork_decoder"

text \<open>
  A MacBinary header (name \<open>A\<close>, data fork length 1) with no fork data behind it, and a
  classic StuffIt archive whose single entry \<open>B\<close> stores these 128 bytes with method 0.
\<close>

definition broken_bin :: "byte list" where
  "broken_bin = [
     0x00, 0x01, 0x41, 0x00, 0x00, 0x00, 0x00, 0x00, 0x00, 0x00, 0x00, 0x00, 0x00, 0x00, 0x00, 0x00,
     0x00, 0x00, 0x00, 0x00, 0x00, 0x00, 0x00, 0x00, 0x00, 0x00, 0x00, 0x00, 0x00, 0x00, 0x00, 0x00,
     0x00, 0x00, 0x00, 0x00, 0x00, 0x00, 0x00, 0x00, 0x00, 0x00, 0x00, 0x00, 0x00, 0x00, 0x00, 0x00,
     0x00, 0x00, 0x00, 0x00, 0x00, 0x00, 0x00, 0x00, 0x00, 0x00, 0x00, 0x00, 0x00, 0x00, 0x00, 0x00,
     0x00, 0x00, 0x00, 0x00, 0x00, 0x00, 0x00, 0x00, 0x00, 0x00, 0x00, 0x00, 0x00, 0x00, 0x00, 0x00,
     0x00, 0x00, 0x00, 0x00, 0x00, 0x00, 0x01, 0x00, 0x00, 0x00, 0x00, 0x00, 0x00, 0x00, 0x00, 0x00,
     0x00, 0x00, 0x00, 0x00, 0x00, 0x00, 0x00, 0x00, 0x00, 0x00, 0x00, 0x00, 0x00, 0x00, 0x00, 0x00,
     0x00, 0x00, 0x00, 0x00, 0x00, 0x00, 0x00, 0x00, 0x00, 0x00, 0x00, 0x00, 0x00, 0x00, 0x00, 0x00]"

definition sit_with_broken_bin :: "byte list" where
  "sit_with_broken_bin = [
     0x53, 0x49, 0x54, 0x21, 0x00, 0x01, 0x00, 0x00, 0x01, 0x06, 0x72, 0x4C, 0x61, 0x75, 0x01, 0x00,
     0x00, 0x00, 0x00, 0x00, 0x00, 0x00, 0x00, 0x00, 0x01, 0x42, 0x00, 0x00, 0x00, 0x00, 0x00, 0x00,
     0x00, 0x00, 0x00, 0x00, 0x00, 0x00, 0x00, 0x00, 0x00, 0x00, 0x00, 0x00, 0x00, 0x00, 0x00, 0x00,
     0x00, 0x00, 0x00, 0x00, 0x00, 0x00, 0x00, 0x00, 0x00, 0x00, 0x00, 0x00, 0x00, 0x00, 0x00, 0x00,
     0x00, 0x00, 0x00, 0x00, 0x00, 0x00, 0x00, 0x00, 0x00, 0x00, 0x00, 0x00, 0x00, 0x00, 0x00, 0x00,
     0x00, 0x00, 0x00, 0x00, 0x00, 0x00, 0x00, 0x00, 0x42, 0x49, 0x4E, 0x41, 0x6D, 0x42, 0x49, 0x4E,
     0x00, 0x00, 0x00, 0x00, 0x00, 0x00, 0x00, 0x00, 0x00, 0x00, 0x00, 0x00, 0x00, 0x00, 0x00, 0x00,
     0x00, 0x80, 0x00, 0x00, 0x00, 0x00, 0x00, 0x00, 0x00, 0x80, 0x00, 0x00, 0x92, 0x62, 0x00, 0x00,
     0x00, 0x00, 0x00, 0x00, 0x00, 0x00, 0x00, 0x01, 0x41, 0x00, 0x00, 0x00, 0x00, 0x00, 0x00, 0x00,
     0x00, 0x00, 0x00, 0x00, 0x00, 0x00, 0x00, 0x00, 0x00, 0x00, 0x00, 0x00, 0x00, 0x00, 0x00, 0x00,
     0x00, 0x00, 0x00, 0x00, 0x00, 0x00, 0x00, 0x00, 0x00, 0x00, 0x00, 0x00, 0x00, 0x00, 0x00, 0x00,
     0x00, 0x00, 0x00, 0x00, 0x00, 0x00, 0x00, 0x00, 0x00, 0x00, 0x00, 0x00, 0x00, 0x00, 0x00, 0x00,
     0x00, 0x00, 0x00, 0x00, 0x00, 0x00, 0x00, 0x00, 0x00, 0x00, 0x00, 0x00, 0x00, 0x00, 0x00, 0x00,
     0x00, 0x00, 0x00, 0x00, 0x00, 0x00, 0x00, 0x00, 0x00, 0x00, 0x00, 0x00, 0x01, 0x00, 0x00, 0x00,
     0x00, 0x00, 0x00, 0x00, 0x00, 0x00, 0x00, 0x00, 0x00, 0x00, 0x00, 0x00, 0x00, 0x00, 0x00, 0x00,
     0x00, 0x00, 0x00, 0x00, 0x00, 0x00, 0x00, 0x00, 0x00, 0x00, 0x00, 0x00, 0x00, 0x00, 0x00, 0x00,
     0x00, 0x00, 0x00, 0x00, 0x00, 0x00]"

definition broken_bin_file :: peel_file where
  "broken_bin_file =
     \<lparr> meta_name = [0x42], mac_type = 0x42494E41, mac_creator = 0x6D42494E,
       finder_flags = 0, data_fork = broken_bin, resource_fork = [] \<rparr>"

text \<open>A handler table with a single wrapper that accepts every buffer and prepends a zero byte.\<close>

definition endless_wrapper :: "peel_format list" where
  "endless_wrapper =
     [\<lparr> fmt_name = ''endless'', fmt_detect = (\<lambda>src. True),
        fmt_handler = PEEL_FMT_WRAPPER (\<lambda>src. Inr (0 # src)) \<rparr>]"

text \<open>
  Where a file of a result list can come from: the single-file wrap of the driver, or
  the list an archive handler of the table returned.
\<close>

definition file_origin :: "peel_format list \<Rightarrow> peel_file \<Rightarrow> bool" where
  "file_origin fmts f \<longleftrightarrow>
     (\<exists>b. f = single_file b)
     \<or> (\<exists>fmt peel_archive b result. fmt \<in> set fmts
           \<and> fmt_handler fmt = PEEL_FMT_ARCHIVE peel_archive
           \<and> peel_archive b = Inr result \<and> f \<in> set result)"

text \<open>
  Two classic StuffIt archives of 135 bytes with one entry \<open>A\<close>, whose data fork is the
  single byte \<open>0x41\<close> stored with method 0. In the first the data method byte is
  \<open>0x10\<close>: method 0 with the encryption flag (bit 4) set. In the second the top header
  declares two entries, but the archive ends after the first.
\<close>

definition encrypted_flag_archive :: "byte list" where
  "encrypted_flag_archive = [
     0x53, 0x49, 0x54, 0x21, 0x00, 0x01, 0x00, 0x00, 0x00, 0x87, 0x72, 0x4C, 0x61, 0x75, 0x01, 0,
     0, 0, 0, 0, 0, 0, 0, 0x10, 0x01, 0x41, 0, 0, 0, 0, 0, 0,
     0, 0, 0, 0, 0, 0, 0, 0, 0, 0, 0, 0, 0, 0, 0, 0,
     0, 0, 0, 0, 0, 0, 0, 0, 0, 0, 0, 0, 0, 0, 0, 0,
     0, 0, 0, 0, 0, 0, 0, 0, 0, 0, 0, 0, 0, 0, 0, 0,
     0, 0, 0, 0, 0, 0, 0, 0, 0x54, 0x45, 0x58, 0x54, 0x74, 0x74, 0x78, 0x74,
     0, 0, 0, 0, 0, 0, 0, 0, 0, 0, 0, 0, 0, 0, 0, 0,
     0, 0x01, 0, 0, 0, 0, 0, 0, 0, 0x01, 0x00, 0x00, 0x30, 0xC0, 0, 0,
     0, 0, 0, 0, 0, 0, 0x41]"

definition truncated_classic_archive :: "byte list" where
  "truncated_classic_archive = [
     0x53, 0x49, 0x54, 0x21, 0x00, 0x02, 0x00, 0x00, 0x00, 0x87, 0x72, 0x4C, 0x61, 0x75, 0x01, 0,
     0, 0, 0, 0, 0, 0, 0, 0, 0x01, 0x41, 0, 0, 0, 0, 0, 0,
     0, 0, 0, 0, 0, 0, 0, 0, 0, 0, 0, 0, 0, 0, 0, 0,
     0, 0, 0, 0, 0, 0, 0, 0, 0, 0, 0, 0, 0, 0, 0, 0,
     0, 0, 0, 0, 0, 0, 0, 0, 0, 0, 0, 0, 0, 0, 0, 0,
     0, 0, 0, 0, 0, 0, 0, 0, 0x54, 0x45, 0x58, 0x54, 0x74, 0x74, 0x78, 0x74,
     0, 0, 0, 0, 0, 0, 0, 0, 0, 0, 0, 0, 0, 0, 0, 0,
     0, 0x01, 0, 0, 0, 0, 0, 0, 0, 0x01, 0x00, 0x00, 0x30, 0xC0, 0, 0,
     0, 0, 0, 0, 0, 0, 0x41]"

definition entry_A :: sit_entry where
  "entry_A =
     \<lparr> ent_name = [0x41], ent_mac_type = 0x54455854, ent_mac_creator = 0x74747874,
       ent_finder_flags = 0,
       ent_data_fork =
         \<lparr> fork_raw_len = 1, fork_packed_len = 1, fork_crc = 0x30C0, fork_method = 0,
           fork_data = [0x41] \<rparr>,
       ent_rsrc_fork =
         \<lparr> fork_raw_len = 0, fork_packed_len = 0, fork_crc = 0, fork_method = 0,
           fork_data = [0x41] \<rparr>,
       ent_has_rsrc = False \<rparr>"

definition file_A :: peel_file where
  "file_A =
     \<lparr> meta_name = [0x41], mac_type = 0x54455854, mac_creator = 0x74747874,
       finder_flags = 0, data_fork = [0x41], resource_fork = [] \<rparr>"

text \<open>
  A MacBinary file \<open>A\<close> of 257 bytes: header, the data fork \<open>0x44\<close> padded to 128
  bytes, and the resource fork \<open>0x52\<close>.
\<close>

definition bin_two_forks :: "byte list" where
  "bin_two_forks = [
     0x00, 0x01, 0x41, 0x00, 0x00, 0x00, 0x00, 0x00, 0x00, 0x00, 0x00, 0x00, 0x00, 0x00, 0x00, 0x00,
     0x00, 0x00, 0x00, 0x00, 0x00, 0x00, 0x00, 0x00, 0x00, 0x00, 0x00, 0x00, 0x00, 0x00, 0x00, 0x00,
     0x00, 0x00, 0x00, 0x00, 0x00, 0x00, 0x00, 0x00, 0x00, 0x00, 0x00, 0x00, 0x00, 0x00, 0x00, 0x00,
     0x00, 0x00, 0x00, 0x00, 0x00, 0x00, 0x00, 0x00, 0x00, 0x00, 0x00, 0x00, 0x00, 0x00, 0x00, 0x00,
     0x00, 0x00, 0x00, 0x00, 0x00, 0x00, 0x00, 0x00, 0x00, 0x00, 0x00, 0x00, 0x00, 0x00, 0x00, 0x00,
     0x00, 0x00, 0x00, 0x00, 0x00, 0x00, 0x01, 0x00, 0x00, 0x00, 0x01, 0x00, 0x00, 0x00, 0x00, 0x00,
     0x00, 0x00, 0x00, 0x00, 0x00, 0x00, 0x00, 0x00, 0x00, 0x00, 0x00, 0x00, 0x00, 0x00, 0x00, 0x00,
     0x00, 0x00, 0x00, 0x00, 0x00, 0x00, 0x00, 0x00, 0x00, 0x00, 0x00, 0x00, 0x00, 0x00, 0x00, 0x00,
     0x44, 0x00, 0x00, 0x00, 0x00, 0x00, 0x00, 0x00, 0x00, 0x00, 0x00, 0x00, 0x00, 0x00, 0x00, 0x00,
     0x00, 0x00, 0x00, 0x00, 0x00, 0x00, 0x00, 0x00, 0x00, 0x00, 0x00, 0x00, 0x00, 0x00, 0x00, 0x00,
     0x00, 0x00, 0x00, 0x00, 0x00, 0x00, 0x00, 0x00, 0x00, 0x00, 0x00, 0x00, 0x00, 0x00, 0x00, 0x00,
     0x00, 0x00, 0x00, 0x00, 0x00, 0x00, 0x00, 0x00, 0x00, 0x00, 0x00, 0x00, 0x00, 0x00, 0x00, 0x00,
     0x00, 0x00, 0x00, 0x00, 0x00, 0x00, 0x00, 0x00, 0x00, 0x00, 0x00, 0x00, 0x00, 0x00, 0x00, 0x00,
     0x00, 0x00, 0x00, 0x00, 0x00, 0x00, 0x00, 0x00, 0x00, 0x00, 0x00, 0x00, 0x00, 0x00, 0x00, 0x00,
     0x00, 0x00, 0x00, 0x00, 0x00, 0x00, 0x00, 0x00, 0x00, 0x00, 0x00, 0x00, 0x00, 0x00, 0x00, 0x00,
     0x00, 0x00, 0x00, 0x00, 0x00, 0x00, 0x00, 0x00, 0x00, 0x00, 0x00, 0x00, 0x00, 0x00, 0x00, 0x00,
     0x52]"

text \<open>
  Three BinHex files for a file \<open>A\<close> (type \<open>TEXT\<close>, creator \<open>ttxt\<close>) whose two forks
  have length 0. They differ in the two-byte CRC fields that follow the header: both
  \<open>0x0000\<close>; data fork field \<open>0x0001\<close>; resource fork field \<open>0x0001\<close>.
\<close>

definition hqx_empty_forks :: "byte list" where
  "hqx_empty_forks = [
     0x28, 0x54, 0x68, 0x69, 0x73, 0x20, 0x66, 0x69, 0x6C, 0x65, 0x20, 0x6D, 0x75, 0x73, 0x74, 0x20,
     0x62, 0x65, 0x20, 0x63, 0x6F, 0x6E, 0x76, 0x65, 0x72, 0x74, 0x65, 0x64, 0x20, 0x77, 0x69, 0x74,
     0x68, 0x20, 0x42, 0x69, 0x6E, 0x48, 0x65, 0x78, 0x20, 0x34, 0x2E, 0x30, 0x29, 0x0A, 0x3A, 0x21,
     0x38, 0x25, 0x21, 0x39, 0x25, 0x39, 0x42, 0x39, 0x28, 0x34, 0x64, 0x48, 0x28, 0x33, 0x21, 0x21,
     0x21, 0x21, 0x21, 0x21, 0x21, 0x21, 0x21, 0x21, 0x21, 0x21, 0x21, 0x38, 0x50, 0x4E, 0x21, 0x21,
     0x21, 0x21, 0x21, 0x3A]"

definition hqx_bad_data_crc :: "byte list" where
  "hqx_bad_data_crc = [
     0x28, 0x54, 0x68, 0x69, 0x73, 0x20, 0x66, 0x69, 0x6C, 0x65, 0x20, 0x6D, 0x75, 0x73, 0x74, 0x20,
     0x62, 0x65, 0x20, 0x63, 0x6F, 0x6E, 0x76, 0x65, 0x72, 0x74, 0x65, 0x64, 0x20, 0x77, 0x69, 0x74,
     0x68, 0x20, 0x42, 0x69, 0x6E, 0x48, 0x65, 0x78, 0x20, 0x34, 0x2E, 0x30, 0x29, 0x0A, 0x3A, 0x21,
     0x38, 0x25, 0x21, 0x39, 0x25, 0x39, 0x42, 0x39, 0x28, 0x34, 0x64, 0x48, 0x28, 0x33, 0x21, 0x21,
     0x21, 0x21, 0x21, 0x21, 0x21, 0x21, 0x21, 0x21, 0x21, 0x21, 0x21, 0x38, 0x50, 0x4E, 0x21, 0x21,
     0x33, 0x21, 0x21, 0x3A]"

definition hqx_bad_rsrc_crc :: "byte list" where
  "hqx_bad_rsrc_crc = [
     0x28, 0x54, 0x68, 0x69, 0x73, 0x20, 0x66, 0x69, 0x6C, 0x65, 0x20, 0x6D, 0x75, 0x73, 0x74, 0x20,
     0x62, 0x65, 0x20, 0x63, 0x6F, 0x6E, 0x76, 0x65, 0x72, 0x74, 0x65, 0x64, 0x20, 0x77, 0x69, 0x74,
     0x68, 0x20, 0x42, 0x69, 0x6E, 0x48, 0x65, 0x78, 0x20, 0x34, 0x2E, 0x30, 0x29, 0x0A, 0x3A, 0x21,
     0x38, 0x25, 0x21, 0x39, 0x25, 0x39, 0x42, 0x39, 0x28, 0x34, 0x64, 0x48, 0x28, 0x33, 0x21, 0x21,
     0x21, 0x21, 0x21, 0x21, 0x21, 0x21, 0x21, 0x21, 0x21, 0x21, 0x21, 0x38, 0x50, 0x4E, 0x21, 0x21,
     0x21, 0x21, 0x22, 0x3A]"

text \<open>
  The header all three declare, and the decoder state once the header has been read.
\<close>

definition hqx_header_A :: hqx_header where
  "hqx_header_A =
     \<lparr> hh_name = [0x41], hh_name_len = 1, hh_mac_type = 0x54455854,
       hh_mac_creator = 0x74747874, hh_finder_flags = 0, hh_data_len = 0, hh_rsrc_len = 0 \<rparr>"

definition hqx_after_header :: "byte list \<Rightarrow> hqx_decoder" where
  "hqx_after_header src =
     \<lparr> hq_src = src, hq_src_pos = 78, hq_accum = 84324, hq_accum_bits = 2,
       hq_rle_marker_seen = False, hq_rle_prev = 0x59, hq_rle_pending = 0 \<rparr>"

section \<open>Theorems\<close>

subsection \<open>Run-length decoders on the documented examples\<close>

text \<open>
  Claim C4. The StuffIt RLE90 decoder (method 1) with declared uncompressed length 9
  turns the eight bytes \<open>41 42 42 90 05 90 00 43\<close> into the nine bytes
  \<open>41 42 42 42 42 42 42 90 43\<close>; \<open>fork_crc\<close> is the CRC-16 of that output, which
  \<open>decompress_fork\<close> verifies before it returns the buffer. The escape \<open>90 00\<close>
  emits a literal \<open>0x90\<close> and leaves the remembered last byte alone: after the first
  seven input bytes the output ends in \<open>0x90\<close> while \<^verbatim>\<open>last_byte\<close> is still \<open>0x42\<close>.
\<close>

theorem rle90_documented_example:
  "decompress_fork peel_sit13 peel_sit15
     \<lparr> fork_raw_len = 9, fork_packed_len = 8, fork_crc = 0x0E35, fork_method = 1,
       fork_data = [0x41, 0x42, 0x42, 0x90, 0x05, 0x90, 0x00, 0x43] \<rparr>
     = Inr [0x41, 0x42, 0x42, 0x42, 0x42, 0x42, 0x42, 0x90, 0x43]
   \<and> rle90_loop 9 0 [] [0x41, 0x42, 0x42, 0x90, 0x05, 0x90, 0x00]
     = ([0x41, 0x42, 0x42, 0x42, 0x42, 0x42, 0x42, 0x90], 0x42)"
  by code_simp

text \<open>
  Claim C3, as stated, fails: on \<open>41 81 82 03\<close> the Compact Pro RLE decoder does not
  stop after two bytes, and on \<open>41 81 82 05\<close> not after four (output limit 8192, the
  chunk size \<^verbatim>\<open>cp_decompress_fork\<close> reads with).
\<close>

theorem cp_rle_two_and_four_counterexample:
  "fst (cp_rle_read cp_memsrc_next 8192
         (cp_rle_init, \<lparr> ms_base = [0x41, 0x81, 0x82, 0x03], ms_pos = 0, ms_end = 4 \<rparr>) [])
     \<noteq> [0x41, 0x41]
   \<and> fst (cp_rle_read cp_memsrc_next 8192
         (cp_rle_init, \<lparr> ms_base = [0x41, 0x81, 0x82, 0x05], ms_pos = 0, ms_end = 4 \<rparr>) [])
     \<noteq> [0x41, 0x41, 0x41, 0x41]"
  by code_simp

text \<open>
  Claim C3, amended. The count byte \<open>N\<close> of \<open>81 82 N\<close> makes the decoder emit the saved
  byte once at once and \<open>N - 2\<close> more times, after the literal already emitted. With an
  output limit of at least 3 bytes, \<open>41 81 82 03\<close> decodes to the three bytes
  \<open>41 41 41\<close>; with a limit of at least 5 bytes, \<open>41 81 82 05\<close> decodes to the five
  bytes \<open>41 41 41 41 41\<close>.
\<close>

theorem cp_rle_documented_example:
  "(3 \<le> max_n \<longrightarrow>
      fst (cp_rle_read cp_memsrc_next max_n
            (cp_rle_init, \<lparr> ms_base = [0x41, 0x81, 0x82, 0x03], ms_pos = 0, ms_end = 4 \<rparr>) [])
        = [0x41, 0x41, 0x41])
   \<and> (5 \<le> max_n \<longrightarrow>
      fst (cp_rle_read cp_memsrc_next max_n
            (cp_rle_init, \<lparr> ms_base = [0x41, 0x81, 0x82, 0x05], ms_pos = 0, ms_end = 4 \<rparr>) [])
        = [0x41, 0x41, 0x41, 0x41, 0x41])"
  by (simp add: cp_rle_read.simps cp_memsrc_next_def cp_rle_init_def Let_def)

theorem cp_rle_documented_example_witness:
  "(3 :: nat) \<le> 8192 \<and> (5 :: nat) \<le> 8192
   \<and> fst (cp_rle_read cp_memsrc_next 8192
         (cp_rle_init, \<lparr> ms_base = [0x41, 0x81, 0x82, 0x03], ms_pos = 0, ms_end = 4 \<rparr>) [])
       = [0x41, 0x41, 0x41]
   \<and> fst (cp_rle_read cp_memsrc_next 8192
         (cp_rle_init, \<lparr> ms_base = [0x41, 0x81, 0x82, 0x05], ms_pos = 0, ms_end = 4 \<rparr>) [])
       = [0x41, 0x41, 0x41, 0x41, 0x41]"
  using cp_rle_documented_example [of 8192] by simp

subsection \<open>The LZW dictionary stays bounded\<close>

lemmas lzw_consts = LZW_FIRST_NEW_def LZW_TABLE_CAP_def LZW_MAX_BITS_def LZW_CLEAR_CODE_def

lemma lzw_bounded_create: "lzw_bounded (lzw_create src n)"
  by (simp add: lzw_bounded_def lzw_create_def lzw_consts)

lemma lzw_bounded_add_entry: "lzw_bounded z \<Longrightarrow> lzw_bounded (lzw_add_entry z p c)"
  by (auto simp: lzw_bounded_def lzw_add_entry_def Let_def lzw_consts)

lemma lzw_add_entry_full: "lzw_tbl_next z \<ge> LZW_TABLE_CAP \<Longrightarrow> lzw_add_entry z p c = z"
  by (simp add: lzw_add_entry_def)

lemma lzw_expand_fields:
  "lzw_tbl_next (lzw_expand z c) = lzw_tbl_next z" "lzw_code_bits (lzw_expand z c) = lzw_code_bits z"
  "lzw_src_bytes (lzw_expand z c) = lzw_src_bytes z" "lzw_bit_pos (lzw_expand z c) = lzw_bit_pos z"
  by (simp_all add: lzw_expand_def Let_def split: prod.splits)

lemma lzw_add_entry_fields:
  "lzw_src_bytes (lzw_add_entry z p c) = lzw_src_bytes z" "lzw_bit_pos (lzw_add_entry z p c) = lzw_bit_pos z"
  by (simp_all add: lzw_add_entry_def Let_def)

lemma lzw_next_code_fields:
  "lzw_next_code z = (code, z') \<Longrightarrow> lzw_tbl_next z' = lzw_tbl_next z \<and> lzw_code_bits z' = lzw_code_bits z \<and> lzw_src_bytes z' = lzw_src_bytes z"
  by (auto simp: lzw_next_code_def Let_def split: if_splits)

lemma lzw_next_code_progress:
  "lzw_next_code z = (code, z') \<Longrightarrow> 0 \<le> code \<Longrightarrow> 0 < lzw_code_bits z \<Longrightarrow>
     lzw_bit_pos z < 8 * lzw_src_bytes z \<and> lzw_bit_pos z < lzw_bit_pos z'"
  by (auto simp: lzw_next_code_def Let_def drop_bit_eq_div split: if_splits)


lemma lzw_step_bounded:
  assumes "lzw_bounded (fst st)"
    and "lzw_decode_step want st = Continue st' \<or> lzw_decode_step want st = Break st'"
  shows "lzw_bounded (fst st')"
proof (cases "lzw_stage_rd (fst st) < lzw_stage_len (fst st)")
  case True
  with assms show ?thesis
    by (auto simp: lzw_decode_step_def Let_def lzw_bounded_def)
next
  case False
  obtain code z1 where nc: "lzw_next_code (fst st) = (code, z1)" by (cases "lzw_next_code (fst st)")
  from lzw_next_code_fields[OF nc] assms(1) have b1: "lzw_bounded z1"
    by (simp add: lzw_bounded_def)
  have b2: "lzw_bounded (lzw_add_entry z1 p c)" for p c
    using b1 by (rule lzw_bounded_add_entry)
  from b2 have b3: "lzw_bounded (lzw_expand (lzw_add_entry z1 p c) k)" for p c k
    by (simp add: lzw_bounded_def lzw_expand_fields)
  from assms(2) False nc b1 b2 b3 show ?thesis
    by (auto simp: lzw_decode_step_def Let_def lzw_bounded_def lzw_consts split: if_splits prod.splits)
qed

lemma lzw_step_progress:
  assumes "lzw_bounded (fst st)" and "length (snd st) < want"
    and "lzw_decode_step want st = Continue st'"
  shows "lzw_src_bytes (fst st') = lzw_src_bytes (fst st) \<and> lzw_measure want st' < lzw_measure want st"
proof (cases "lzw_stage_rd (fst st) < lzw_stage_len (fst st)")
  case True
  with assms show ?thesis
    by (auto simp: lzw_decode_step_def Let_def lzw_measure_def)
next
  case False
  obtain code z1 where nc: "lzw_next_code (fst st) = (code, z1)" by (cases "lzw_next_code (fst st)")
  from assms(3) False nc have code: "0 \<le> code"
    by (auto simp: lzw_decode_step_def Let_def split: if_splits)
  from assms(1) have "0 < lzw_code_bits (fst st)" by (simp add: lzw_bounded_def)
  from lzw_next_code_progress[OF nc code this] lzw_next_code_fields[OF nc]
  have p: "lzw_bit_pos (fst st) < 8 * lzw_src_bytes (fst st)" "lzw_bit_pos (fst st) < lzw_bit_pos z1"
      "lzw_src_bytes z1 = lzw_src_bytes (fst st)" by auto
  from assms(3) False nc p show ?thesis
    by (auto simp: lzw_decode_step_def Let_def lzw_measure_def lzw_expand_fields lzw_add_entry_fields
             split: if_splits prod.splits)
qed

lemma lzw_loop_returns:
  "lzw_bounded (fst st) \<Longrightarrow> \<exists>st'. lzw_decode_loop want st = Some st' \<and> lzw_bounded (fst st')"
proof (induction "lzw_measure want st" arbitrary: st rule: less_induct)
  case less
  show ?case
  proof (cases "length (snd st) < want")
    case False
    then show ?thesis using less.prems by (subst lzw_decode_loop.simps) simp
  next
    case True
    show ?thesis
    proof (cases "lzw_decode_step want st")
      case (Break st')
      with True lzw_step_bounded[OF less.prems, of want st'] show ?thesis
        by (subst lzw_decode_loop.simps) simp
    next
      case (Continue st')
      from lzw_step_progress[OF less.prems True Continue]
      have "lzw_measure want st' < lzw_measure want st" by simp
      moreover have "lzw_bounded (fst st')"
        using lzw_step_bounded[OF less.prems, of want st'] Continue by simp
      ultimately obtain r where "lzw_decode_loop want st' = Some r" "lzw_bounded (fst r)"
        using less.hyps by blast
      with True Continue show ?thesis
        by (subst lzw_decode_loop.simps) simp
    qed
  qed
qed


lemma lzw_clear_resets:
  assumes "\<not> lzw_stage_rd z < lzw_stage_len z" and "fst (lzw_next_code z) = LZW_CLEAR_CODE"
  shows "\<exists>z'. lzw_decode_step want (z, dst) = Continue (z', dst)
           \<and> lzw_tbl_next z' = LZW_FIRST_NEW \<and> lzw_code_bits z' = 9 \<and> lzw_prev z' = - 1"
proof -
  obtain code z1 where nc: "lzw_next_code z = (code, z1)" by (cases "lzw_next_code z")
  with assms(2) have "code = LZW_CLEAR_CODE" by simp
  with assms(1) nc show ?thesis
    by (simp add: lzw_decode_step_def Let_def lzw_consts)
qed

text \<open>
  Claim C9. The dictionary of the StuffIt LZW decoder never holds more than 16384
  entries and its code width never exceeds 14 bits: the bounds hold for a fresh decoder,
  every request to add an entry and every pass of the decoding loop keep them, and
  decoding a whole fork returns (with no error path at all) in a state that satisfies
  them. A request to add an entry to a full dictionary leaves the decoder unchanged, and
  the clear code 256 resets the next free slot to 257 and the code width to 9.
\<close>

theorem lzw_dictionary_bounded:
  "LZW_TABLE_CAP = 16384 \<and> LZW_MAX_BITS = 14
   \<and> lzw_bounded (lzw_create src n)
   \<and> (lzw_bounded z \<longrightarrow> lzw_bounded (lzw_add_entry z p c))
   \<and> (LZW_TABLE_CAP \<le> lzw_tbl_next z \<longrightarrow> lzw_add_entry z p c = z)
   \<and> (lzw_bounded (fst st)
        \<and> (lzw_decode_step want st = Continue st' \<or> lzw_decode_step want st = Break st')
        \<longrightarrow> lzw_bounded (fst st'))
   \<and> (\<not> lzw_stage_rd z < lzw_stage_len z \<and> fst (lzw_next_code z) = LZW_CLEAR_CODE
        \<longrightarrow> (\<exists>z'. lzw_decode_step want (z, dst) = Continue (z', dst)
                 \<and> lzw_tbl_next z' = LZW_FIRST_NEW \<and> lzw_code_bits z' = 9 \<and> lzw_prev z' = - 1))
   \<and> (\<exists>z' out. lzw_decode (lzw_create src n) want = Some (z', out) \<and> lzw_bounded z')"
proof -
  have "\<exists>z' out. lzw_decode (lzw_create src n) want = Some (z', out) \<and> lzw_bounded z'"
    using lzw_loop_returns[of "(lzw_create src n, [])" want] lzw_bounded_create[of src n]
    by (auto simp: lzw_decode_def)
  then show ?thesis
    using lzw_bounded_create lzw_bounded_add_entry lzw_add_entry_full lzw_step_bounded
      lzw_clear_resets
    by (simp add: LZW_TABLE_CAP_def LZW_MAX_BITS_def) blast
qed

theorem lzw_dictionary_bounded_witness:
  "lzw_bounded lzw_full_example
   \<and> LZW_TABLE_CAP \<le> lzw_tbl_next lzw_full_example
   \<and> \<not> lzw_stage_rd lzw_full_example < lzw_stage_len lzw_full_example
   \<and> fst (lzw_next_code lzw_full_example) = LZW_CLEAR_CODE
   \<and> lzw_bounded (lzw_add_entry lzw_full_example 65 66)
   \<and> lzw_add_entry lzw_full_example 65 66 = lzw_full_example
   \<and> (\<exists>z'. lzw_decode_step 1 (lzw_full_example, []) = Continue (z', [])
          \<and> lzw_bounded z' \<and> lzw_tbl_next z' = LZW_FIRST_NEW \<and> lzw_code_bits z' = 9)"
proof -
  have h1: "lzw_bounded lzw_full_example"
    by (simp add: lzw_full_example_def lzw_bounded_def lzw_create_def lzw_consts)
  have h2: "LZW_TABLE_CAP \<le> lzw_tbl_next lzw_full_example"
    by (simp add: lzw_full_example_def lzw_consts)
  have h3: "\<not> lzw_stage_rd lzw_full_example < lzw_stage_len lzw_full_example"
    by (simp add: lzw_full_example_def lzw_create_def)
  have h4: "fst (lzw_next_code lzw_full_example) = LZW_CLEAR_CODE"
    by (simp add: lzw_full_example_def lzw_create_def lzw_next_code_def Let_def lzw_consts
          drop_bit_eq_div)
  from h3 h4 obtain z' where
    s: "lzw_decode_step 1 (lzw_full_example, []) = Continue (z', [])"
       "lzw_tbl_next z' = LZW_FIRST_NEW" "lzw_code_bits z' = 9"
    using lzw_dictionary_bounded[of _ _ lzw_full_example _ _ _ 1 _ "[]"] by blast
  from h1 s(1) have "lzw_bounded z'"
    using lzw_dictionary_bounded[of _ _ _ _ _ "(lzw_full_example, [])" 1 "(z', [])"] by simp
  with h1 h2 h3 h4 s show ?thesis
    using lzw_dictionary_bounded[of _ _ lzw_full_example 65 66] by auto
qed

subsection \<open>Signature scans that cannot match\<close>

lemma bytes_at_nth:
  assumes "bytes_at buf off s" and "k < length s" and "off + length s \<le> length buf"
  shows "buf ! (off + k) = s ! k"
proof -
  from assms(1) have "take (length s) (drop off buf) ! k = s ! k"
    unfolding bytes_at_def by simp
  with assms(2,3) show ?thesis by simp
qed

lemma HQX_PREAMBLE_facts: "length HQX_PREAMBLE = 40" "HQX_PREAMBLE ! 0 = 0x28"
  by (simp_all add: HQX_PREAMBLE_def bytes_of_def)

lemma hqx_find_preamble_loop_none:
  "0x28 \<notin> set src \<Longrightarrow> hqx_find_preamble_loop src i = None"
proof (induction src i rule: hqx_find_preamble_loop.induct)
  case (1 src i)
  have nb: "\<not> bytes_at src i HQX_PREAMBLE" if le: "i + length HQX_PREAMBLE \<le> length src"
  proof
    assume "bytes_at src i HQX_PREAMBLE"
    from bytes_at_nth[OF this _ le, of 0] have "src ! i = 0x28"
      by (simp add: HQX_PREAMBLE_facts)
    moreover from le have "i < length src" by (simp add: HQX_PREAMBLE_facts)
    ultimately show False using "1.prems" by (metis nth_mem)
  qed
  show ?case
  proof (cases "i + length HQX_PREAMBLE \<le> length src")
    case True
    from "1.IH"[OF True nb[OF True] "1.prems"] nb[OF True] True show ?thesis
      by (subst hqx_find_preamble_loop.simps) simp
  next
    case False
    then show ?thesis
      by (subst hqx_find_preamble_loop.simps) simp
  qed
qed

lemma hqx_detect_no_paren: "list_all (\<lambda>b. b \<noteq> 0x28) src \<Longrightarrow> hqx_detect src = False"
proof -
  assume "list_all (\<lambda>b. b \<noteq> 0x28) src"
  then have "0x28 \<notin> set src" by (auto simp: list_all_iff)
  then show ?thesis
    by (simp add: hqx_detect_def hqx_find_preamble_def hqx_find_preamble_loop_none)
qed

lemma sit5_banner_facts:
  "length (bytes_of ''StuffIt (c)1997-'') = 16" "bytes_of ''StuffIt (c)1997-'' ! 3 = 0x66"
  by (simp_all add: bytes_of_def)

lemma find_sit5_loop_none:
  "0x66 \<notin> set src \<Longrightarrow> limit + 80 \<le> length src \<Longrightarrow> find_sit5_loop src limit off = None"
proof (induction src limit off rule: find_sit5_loop.induct)
  case (1 src limit off)
  have nb: "\<not> bytes_at src off (bytes_of ''StuffIt (c)1997-'')" if le: "off \<le> limit"
  proof
    assume b: "bytes_at src off (bytes_of ''StuffIt (c)1997-'')"
    from le "1.prems" have le2: "off + length (bytes_of ''StuffIt (c)1997-'') \<le> length src"
      by (simp add: sit5_banner_facts)
    from bytes_at_nth[OF b _ le2, of 3] have "src ! (off + 3) = 0x66"
      by (simp add: sit5_banner_facts)
    moreover from le2 have "off + 3 < length src" by (simp add: sit5_banner_facts)
    ultimately show False using "1.prems" by (metis nth_mem)
  qed
  show ?case
  proof (cases "off \<le> limit")
    case True
    from "1.IH"[OF True _ "1.prems"] nb[OF True] True show ?thesis
      by (subst find_sit5_loop.simps) simp
  next
    case False
    then show ?thesis
      by (subst find_sit5_loop.simps) simp
  qed
qed

lemma find_sit5_magic_no_f: "list_all (\<lambda>b. b \<noteq> 0x66) src \<Longrightarrow> find_sit5_magic src = None"
proof -
  assume "list_all (\<lambda>b. b \<noteq> 0x66) src"
  then have "0x66 \<notin> set src" by (auto simp: list_all_iff)
  then show ?thesis
    by (simp add: find_sit5_magic_def find_sit5_loop_none)
qed

subsection \<open>The driver: auxiliary facts\<close>

lemma detect_format_mem: "detect_format fmts src = Some fmt \<Longrightarrow> fmt \<in> set fmts"
  by (auto simp: detect_format_def find_Some_iff)

lemma peel_wrap_loop_archive:
  "peel_wrap_loop fmts cur k = Wrap_archive result \<Longrightarrow>
     \<exists>fmt peel_archive b. fmt \<in> set fmts \<and> fmt_handler fmt = PEEL_FMT_ARCHIVE peel_archive
        \<and> peel_archive b = Inr result"
proof (induction fmts cur k rule: peel_wrap_loop.induct)
  case (1 fmts cur wrap_depth)
  from "1.prems" have lt: "wrap_depth < MAX_PEEL_DEPTH"
    by (subst (asm) peel_wrap_loop.simps) (simp split: if_splits)
  from "1.prems" lt obtain fmt where d: "detect_format fmts cur = Some fmt"
    by (subst (asm) peel_wrap_loop.simps) (auto split: option.splits)
  show ?case
  proof (cases "fmt_handler fmt")
    case (PEEL_FMT_WRAPPER w)
    with "1.prems" lt d obtain decoded where w: "w cur = Inr decoded"
      and r: "peel_wrap_loop fmts decoded (wrap_depth + 1) = Wrap_archive result"
      by (subst (asm) peel_wrap_loop.simps) (auto split: sum.splits)
    from "1.IH"[OF lt d PEEL_FMT_WRAPPER w r] show ?thesis .
  next
    case (PEEL_FMT_ARCHIVE a)
    with "1.prems" lt d have "a cur = Inr result"
      by (subst (asm) peel_wrap_loop.simps) (auto split: sum.splits)
    with PEEL_FMT_ARCHIVE detect_format_mem[OF d] show ?thesis by blast
  qed
qed

lemma peel_origin_mutual:
  "(\<forall>files f. peel_depth fmts src depth = Inr files \<longrightarrow> f \<in> set files \<longrightarrow> file_origin fmts f)"
  "(\<forall>f. f \<in> set (recursive_peel_files fmts list depth) \<longrightarrow> f \<in> set list \<or> file_origin fmts f)"
proof (induction fmts src depth and fmts list depth rule: peel_depth_recursive_peel_files.induct)
  case (1 fmts src depth)
  show ?case
  proof (intro allI impI)
    fix files f
    assume eq: "peel_depth fmts src depth = Inr files" and mem: "f \<in> set files"
    show "file_origin fmts f"
    proof (cases "MAX_PEEL_DEPTH \<le> depth")
      case True
      with eq mem show ?thesis
        by (auto simp: peel_depth.simps wrap_single_file_def file_origin_def)
    next
      case False
      show ?thesis
      proof (cases "peel_wrap_loop fmts src 0")
        case (Wrap_failed e)
        with eq False show ?thesis by (simp add: peel_depth.simps)
      next
        case (Wrap_plain cur)
        with eq mem False show ?thesis
          by (auto simp: peel_depth.simps wrap_single_file_def file_origin_def)
      next
        case (Wrap_archive result)
        with eq False have files: "files = recursive_peel_files fmts result depth"
          by (simp add: peel_depth.simps)
        from "1.IH"[OF False Wrap_archive] mem files
        have "f \<in> set result \<or> file_origin fmts f" by blast
        moreover from peel_wrap_loop_archive[OF Wrap_archive]
        have "f \<in> set result \<Longrightarrow> file_origin fmts f"
          unfolding file_origin_def by blast
        ultimately show ?thesis by blast
      qed
    qed
  qed
next
  case (2 fmts depth)
  show ?case by simp
next
  case (3 fmts f list depth)
  show ?case
  proof (cases "repeel_format fmts f")
    case None
    with "3.IH"(1) show ?thesis by auto
  next
    case (Some fmt)
    show ?thesis
    proof (cases "peel_depth fmts (data_fork f) (depth + 1)")
      case (Inl e)
      with Some "3.IH"(3) show ?thesis by auto
    next
      case (Inr sub)
      with Some "3.IH"(2,4) show ?thesis by auto
    qed
  qed
qed

lemma recursive_peel_files_append:
  "recursive_peel_files fmts (xs @ ys) depth
     = recursive_peel_files fmts xs depth @ recursive_peel_files fmts ys depth"
  by (induction xs) (auto split: option.splits sum.splits)

lemma peel_wrap_loop_always_wrapper:
  assumes "\<forall>b. detect_format fmts b = Some fmt" and "fmt_handler fmt = PEEL_FMT_WRAPPER w"
    and "\<forall>b. w b = Inr (g b)"
  shows "k \<le> MAX_PEEL_DEPTH \<Longrightarrow> peel_wrap_loop fmts cur k = Wrap_plain ((g ^^ (MAX_PEEL_DEPTH - k)) cur)"
proof (induction "MAX_PEEL_DEPTH - k" arbitrary: k cur)
  case 0
  then show ?case by (subst peel_wrap_loop.simps) simp
next
  case (Suc n)
  then have lt: "k < MAX_PEEL_DEPTH" and n: "n = MAX_PEEL_DEPTH - (k + 1)" by auto
  from Suc.hyps(1)[OF n, of "g cur"] lt
  have "peel_wrap_loop fmts (g cur) (k + 1) = Wrap_plain ((g ^^ n) (g cur))" using n by simp
  with lt assms Suc.hyps(2) show ?case
    by (subst peel_wrap_loop.simps) (simp add: funpow_swap1 flip: Suc.hyps(2))
qed


subsection \<open>Evaluation of the worked examples\<close>

lemma ex_t1: "hqx_detect broken_bin = False"
  by (rule hqx_detect_no_paren) (simp add: broken_bin_def)
lemma ex_v: "bin_validate broken_bin"
  by (simp add: broken_bin_def bin_validate_def MB_NAME_MAX_def Let_def)
lemma ex_len: "length broken_bin = 128" by (simp add: broken_bin_def)
lemma ex_t2: "bin_detect broken_bin = True"
  by (simp add: bin_detect_def ex_v ex_len MB_BLOCK_def)
lemma ex_hdr: "bin_parse_header broken_bin = \<lparr> bh_name = [0x41], bh_name_len = 1, bh_mac_type = 0,
      bh_mac_creator = 0, bh_finder_flags = 0, bh_data_len = 1, bh_rsrc_len = 0, bh_sec_hdr_len = 0 \<rparr>"
  by (simp add: broken_bin_def bin_parse_header_def rd32be_def rd16be_def MB_NAME_MAX_def)
lemma ex_t3: "bin_decode broken_bin = Inl Bin_data_truncated"
  by (simp add: bin_decode_def ex_v ex_len ex_hdr Let_def MB_BLOCK_def)
lemma ex_t4: "peel_bin broken_bin = Inl Bin_data_truncated"
  by (simp add: peel_bin_def ex_t3)
lemma ex_d1: "detect_format example_formats broken_bin = Some \<lparr> fmt_name = ''bin'', fmt_detect = bin_detect, fmt_handler = PEEL_FMT_WRAPPER peel_bin \<rparr>"
  by (simp add: detect_format_def example_formats_def g_formats_def ex_t1 ex_t2)
lemma ex_r1: "repeel_format example_formats broken_bin_file = Some \<lparr> fmt_name = ''bin'', fmt_detect = bin_detect, fmt_handler = PEEL_FMT_WRAPPER peel_bin \<rparr>"
proof -
  have "broken_bin \<noteq> []" using ex_len by auto
  then show ?thesis by (simp add: repeel_format_def broken_bin_file_def ex_d1)
qed
lemma ex_p1: "peel_depth example_formats (data_fork broken_bin_file) (0 + 1) = Inl Bin_data_truncated"
  by (simp add: peel_depth.simps peel_wrap_loop.simps MAX_PEEL_DEPTH_def ex_d1 ex_t4 broken_bin_file_def)

lemma ex_s1: "hqx_detect sit_with_broken_bin = False"
  by (rule hqx_detect_no_paren) (simp add: sit_with_broken_bin_def)
lemma ex_s2: "bin_detect sit_with_broken_bin = False"
  by (simp add: sit_with_broken_bin_def bin_detect_def bin_validate_def)
lemma ex_s3: "find_classic_magic sit_with_broken_bin = Some 0"
  by (simp add: sit_with_broken_bin_def find_classic_magic_def find_classic_loop.simps SIT_CLASSIC_HDR_SIZE_def bytes_at_def bytes_of_def classic_sigs_def)
lemma ex_s4: "find_sit5_magic sit_with_broken_bin = None"
  by (rule find_sit5_magic_no_f) (simp add: sit_with_broken_bin_def)
lemma ex_s5: "sit_detect sit_with_broken_bin = True"
  by (simp add: sit_detect_def ex_s3)
lemma ex_s6: "parse_classic sit_with_broken_bin 0 = Inr [\<lparr>ent_name = [0x42], ent_mac_type = 0x42494E41,
         ent_mac_creator = 0x6D42494E, ent_finder_flags = 0,
         ent_data_fork =
           \<lparr>fork_raw_len = 128, fork_packed_len = 128, fork_crc = 0x9262,
              fork_method = 0, fork_data = broken_bin\<rparr>,
         ent_rsrc_fork =
           \<lparr>fork_raw_len = 0, fork_packed_len = 0, fork_crc = 0,
              fork_method = 0, fork_data = broken_bin\<rparr>,
         ent_has_rsrc = False\<rparr>]"
  by (simp add: sit_with_broken_bin_def broken_bin_def parse_classic_def parse_classic_loop.simps Let_def SIT_CLASSIC_HDR_SIZE_def SIT_ENTRY_HDR_SIZE_def
     SIT_FOLDER_START_def SIT_FOLDER_END_def rd16be_def rd32be_def entry_list_push_def SIT_MAX_FILES_def
     classic_path_def cstr_def)
lemma ex_s7: "sit_crc broken_bin = 0x9262"
  by (simp add: broken_bin_def sit_crc_def sit_crc_table_def)
lemma ex_s8: "peel_sit unused_parse_sit5 unused_fork_decoder unused_fork_decoder sit_with_broken_bin = Inr [broken_bin_file]"
  by (simp add: peel_sit_def ex_s3 ex_s4 ex_s6 build_file_list_def decompress_fork_def sit_check_crc_def
        ex_s7 ex_len broken_bin_file_def cstr_def)
lemma ex_w: "peel_wrap_loop example_formats sit_with_broken_bin 0 = Wrap_archive ([] @ broken_bin_file # [])"
  by (simp add: peel_wrap_loop.simps MAX_PEEL_DEPTH_def detect_format_def example_formats_def g_formats_def ex_s1 ex_s2 ex_s5 ex_s8)

subsection \<open>The driver: origin of the files, swallowed failures, bounded depth\<close>

text \<open>
  Claim C2, as stated, fails: on the empty input no handler matches and the driver
  wraps the empty buffer, so \<open>peel\<close> returns one file whose data fork and
  resource fork both have size 0.
\<close>

theorem peel_empty_input_counterexample:
  "peel example_formats []
     = Inr [\<lparr> meta_name = [], mac_type = 0, mac_creator = 0, finder_flags = 0,
              data_fork = [], resource_fork = [] \<rparr>]"
  by (simp add: peel_def peel_depth.simps peel_wrap_loop.simps MAX_PEEL_DEPTH_def
        detect_format_def example_formats_def g_formats_def hqx_detect_def
        hqx_find_preamble_def HQX_PREAMBLE_def bytes_of_def bin_detect_def MB_BLOCK_def
        sit_detect_def find_classic_magic_def SIT_CLASSIC_HDR_SIZE_def find_sit5_magic_def
        cpt_detect_def wrap_single_file_def single_file_def)

text \<open>
  Claim C2, amended. Every file in a list returned by \<open>peel\<close> is either the driver's
  single-file wrap of a buffer, whose data fork is that buffer and whose resource fork
  is empty (so it has a nonempty fork exactly when the buffer is nonempty), or a file
  of the list that an archive handler of the table returned; the driver filters no
  file by its fork sizes. An input that no handler recognises comes back as the
  single-file wrap of the input itself.
\<close>

theorem peel_files_origin:
  "(peel fmts src = Inr files \<and> f \<in> set files \<longrightarrow>
      (\<exists>b. f = single_file b \<and> data_fork f = b \<and> resource_fork f = [])
      \<or> (\<exists>fmt peel_archive b result. fmt \<in> set fmts
             \<and> fmt_handler fmt = PEEL_FMT_ARCHIVE peel_archive
             \<and> peel_archive b = Inr result \<and> f \<in> set result))
   \<and> (detect_format fmts src = None \<longrightarrow> peel fmts src = Inr [single_file src])"
proof -
  have "file_origin fmts f" if "peel fmts src = Inr files" and "f \<in> set files"
    using peel_origin_mutual(1)[of fmts src 0] that by (auto simp: peel_def)
  moreover have "peel fmts src = Inr [single_file src]" if "detect_format fmts src = None"
    using that
    by (simp add: peel_def peel_depth.simps peel_wrap_loop.simps MAX_PEEL_DEPTH_def
          wrap_single_file_def)
  ultimately show ?thesis
    by (auto simp: file_origin_def single_file_def)
qed

theorem peel_files_origin_witness:
  "peel example_formats [] = Inr [single_file []]
   \<and> single_file [] \<in> set [single_file []]
   \<and> detect_format example_formats [] = None
   \<and> ((\<exists>b. single_file [] = single_file b \<and> data_fork (single_file []) = b
            \<and> resource_fork (single_file []) = [])
        \<or> (\<exists>fmt peel_archive b result. fmt \<in> set example_formats
             \<and> fmt_handler fmt = PEEL_FMT_ARCHIVE peel_archive
             \<and> peel_archive b = Inr result \<and> single_file [] \<in> set result))"
proof -
  have d: "detect_format example_formats [] = None"
    by (simp add: detect_format_def example_formats_def g_formats_def hqx_detect_def
          hqx_find_preamble_def HQX_PREAMBLE_def bytes_of_def bin_detect_def MB_BLOCK_def
          sit_detect_def find_classic_magic_def SIT_CLASSIC_HDR_SIZE_def find_sit5_magic_def
          cpt_detect_def)
  with peel_files_origin[of example_formats "[]" "[single_file []]" "single_file []"]
  have p: "peel example_formats [] = Inr [single_file []]" by simp
  with d peel_files_origin[of example_formats "[]" "[single_file []]" "single_file []"]
  show ?thesis by simp
qed

text \<open>
  Claim C5. When \<^verbatim>\<open>recursive_peel_files\<close> follows a file whose data fork detects as a
  wrapper and the sub-peel of that data fork fails, the error is dropped and the file
  itself stays in the result, at its place between the results for the files before and
  after it; and a peel whose archive handler returned that file still succeeds, with
  this list.
\<close>

theorem sub_peel_failure_swallowed:
  assumes "repeel_format fmts f = Some fmt"
    and "peel_depth fmts (data_fork f) (depth + 1) = Inl sub_err"
  shows "recursive_peel_files fmts (pre @ f # post) depth
           = recursive_peel_files fmts pre depth @ f # recursive_peel_files fmts post depth
         \<and> (depth < MAX_PEEL_DEPTH \<and> peel_wrap_loop fmts src 0 = Wrap_archive (pre @ f # post)
             \<longrightarrow> peel_depth fmts src depth
                   = Inr (recursive_peel_files fmts pre depth @ f
                            # recursive_peel_files fmts post depth))"
proof -
  from assms have "recursive_peel_files fmts (f # post) depth
                     = f # recursive_peel_files fmts post depth"
    by simp
  then have "recursive_peel_files fmts (pre @ f # post) depth
           = recursive_peel_files fmts pre depth @ f # recursive_peel_files fmts post depth"
    by (simp add: recursive_peel_files_append)
  then show ?thesis by (simp add: peel_depth.simps)
qed

theorem sub_peel_failure_swallowed_witness:
  "repeel_format example_formats broken_bin_file
     = Some \<lparr> fmt_name = ''bin'', fmt_detect = bin_detect,
              fmt_handler = PEEL_FMT_WRAPPER peel_bin \<rparr>
   \<and> peel_depth example_formats (data_fork broken_bin_file) (0 + 1) = Inl Bin_data_truncated
   \<and> peel_wrap_loop example_formats sit_with_broken_bin 0 = Wrap_archive [broken_bin_file]
   \<and> recursive_peel_files example_formats [broken_bin_file] 0 = [broken_bin_file]
   \<and> peel example_formats sit_with_broken_bin = Inr [broken_bin_file]"
  using sub_peel_failure_swallowed[OF ex_r1 ex_p1, of "[]" "[]" sit_with_broken_bin] ex_r1 ex_p1 ex_w
  by (simp add: peel_def MAX_PEEL_DEPTH_def)

text \<open>
  Claim C6. \<open>peel\<close> is a total function of the handler table and the input: the
  wrapper loop runs at most \<^verbatim>\<open>MAX_PEEL_DEPTH\<close> = 32 times and recursive re-peel stops
  at depth 32, where the data is returned as a single file without looking at it. With
  a table whose detection reports a wrapper on every buffer, and whose wrapper never
  fails, \<open>peel\<close> applies the wrapper exactly 32 times and returns what remains as a
  single file.
\<close>

theorem peel_bounded_layers:
  "MAX_PEEL_DEPTH = 32
   \<and> (MAX_PEEL_DEPTH \<le> depth \<longrightarrow> peel_depth fmts src depth = Inr [single_file src])
   \<and> ((\<forall>b. detect_format fmts b = Some fmt) \<and> fmt_handler fmt = PEEL_FMT_WRAPPER w
        \<and> (\<forall>b. w b = Inr (g b))
       \<longrightarrow> peel fmts src = Inr [single_file ((g ^^ 32) src)])"
proof -
  have "peel fmts src = Inr [single_file ((g ^^ 32) src)]"
    if "\<forall>b. detect_format fmts b = Some fmt" "fmt_handler fmt = PEEL_FMT_WRAPPER w"
       "\<forall>b. w b = Inr (g b)"
    using peel_wrap_loop_always_wrapper[OF that, of 0 src]
    by (simp add: peel_def peel_depth.simps MAX_PEEL_DEPTH_def wrap_single_file_def)
  then show ?thesis
    by (simp add: peel_depth.simps wrap_single_file_def MAX_PEEL_DEPTH_def)
qed

theorem peel_bounded_layers_witness:
  "(\<forall>b. detect_format endless_wrapper b = Some (hd endless_wrapper))
   \<and> fmt_handler (hd endless_wrapper) = PEEL_FMT_WRAPPER (\<lambda>src. Inr (0 # src))
   \<and> peel endless_wrapper [] = Inr [single_file (replicate 32 0)]
   \<and> MAX_PEEL_DEPTH \<le> 32
   \<and> peel_depth endless_wrapper [0x41] 32 = Inr [single_file [0x41]]"
proof -
  have d: "\<forall>b. detect_format endless_wrapper b = Some (hd endless_wrapper)"
    by (simp add: detect_format_def endless_wrapper_def)
  have h: "fmt_handler (hd endless_wrapper) = PEEL_FMT_WRAPPER (\<lambda>src. Inr (0 # src))"
    by (simp add: endless_wrapper_def)
  have r: "(((#) 0) ^^ 32) [] = replicate 32 (0 :: byte)"
    by (simp add: eval_nat_numeral)
  from d h r
    peel_bounded_layers[of 32 endless_wrapper "[0x41]"]
    peel_bounded_layers[of 32 endless_wrapper "[]" "hd endless_wrapper"
      "\<lambda>src. Inr (0 # src)" "(#) 0"]
  show ?thesis by simp
qed

subsection \<open>Classic StuffIt archives\<close>

lemmas parse_classic_eval =
  parse_classic_def parse_classic_loop.simps Let_def SIT_CLASSIC_HDR_SIZE_def
  SIT_ENTRY_HDR_SIZE_def SIT_FOLDER_START_def SIT_FOLDER_END_def rd16be_def rd32be_def
  entry_list_push_def SIT_MAX_FILES_def classic_path_def cstr_def

lemma enc_classic: "find_classic_magic encrypted_flag_archive = Some 0"
  by (simp add: encrypted_flag_archive_def find_classic_magic_def find_classic_loop.simps
        SIT_CLASSIC_HDR_SIZE_def bytes_at_def bytes_of_def classic_sigs_def)

lemma enc_sit5: "find_sit5_magic encrypted_flag_archive = None"
  by (rule find_sit5_magic_no_f) (simp add: encrypted_flag_archive_def)

lemma enc_parse: "parse_classic encrypted_flag_archive 0 = Inr [entry_A]"
  by (simp add: encrypted_flag_archive_def entry_A_def parse_classic_eval)

lemma build_entry_A: "build_file_list peel_sit13 peel_sit15 [entry_A] = Inr [file_A]"
  by (simp add: build_file_list_def entry_A_def file_A_def decompress_fork_def
        sit_check_crc_def sit_crc_def sit_crc_table_def cstr_def)

text \<open>
  Claim C1 does not hold of the code. The archive \<open>encrypted_flag_archive\<close> has an
  entry whose data method byte has bit 4, the encryption flag, set; \<^verbatim>\<open>parse_classic\<close>
  masks the byte with \<open>0x0F\<close> and \<open>peel_sit\<close> returns the fork decompressed with
  method 0 instead of failing.
\<close>

theorem classic_encrypted_fork_is_decompressed:
  "(encrypted_flag_archive ! 23) AND 0x10 = 0x10
   \<and> peel_sit parse_sit5 peel_sit13 peel_sit15 encrypted_flag_archive = Inr [file_A]"
proof -
  have "(encrypted_flag_archive ! 23) AND 0x10 = 0x10"
    by (simp add: encrypted_flag_archive_def)
  then show ?thesis
    by (simp add: peel_sit_def enc_classic enc_sit5 enc_parse build_entry_A)
qed

lemma trunc_classic: "find_classic_magic truncated_classic_archive = Some 0"
  by (simp add: truncated_classic_archive_def find_classic_magic_def find_classic_loop.simps
        SIT_CLASSIC_HDR_SIZE_def bytes_at_def bytes_of_def classic_sigs_def)

lemma trunc_sit5: "find_sit5_magic truncated_classic_archive = None"
  by (rule find_sit5_magic_no_f) (simp add: truncated_classic_archive_def)

lemma trunc_count: "unat (rd16be (drop 4 truncated_classic_archive)) = 2"
  by (simp add: truncated_classic_archive_def rd16be_def)

lemma trunc_len: "length truncated_classic_archive = 135"
  by (simp add: truncated_classic_archive_def)

lemma trunc_first_entry:
  "parse_classic_loop truncated_classic_archive 0 2 22 0 [] []
     = parse_classic_loop truncated_classic_archive 0 2 135 1 [] [entry_A]"
  by (subst parse_classic_loop.simps)
     (simp add: truncated_classic_archive_def entry_A_def Let_def SIT_ENTRY_HDR_SIZE_def
        SIT_FOLDER_START_def SIT_FOLDER_END_def rd16be_def rd32be_def entry_list_push_def
        SIT_MAX_FILES_def classic_path_def cstr_def)

text \<open>
  Claim C10. When the next 112-byte entry header would extend past the end of the
  archive while fewer entries than the declared count have been consumed, the parsing
  loop stops and returns the entries collected so far, with no error; \<open>peel_sit\<close>
  then builds its file list from exactly these entries, so the truncation is not
  reported.
\<close>

theorem classic_truncation_not_reported:
  "(ndone < file_count \<and> cursor + SIT_ENTRY_HDR_SIZE > length blob - archive_off
      \<longrightarrow> parse_classic_loop blob archive_off file_count cursor ndone dirs entries = Inr entries)
   \<and> (find_classic_magic src = Some off
        \<and> (find_sit5_magic src = None \<or> off \<le> the (find_sit5_magic src))
        \<and> parse_classic src off = Inr entries
      \<longrightarrow> peel_sit parse_sit5 peel_sit13 peel_sit15 src
            = build_file_list peel_sit13 peel_sit15 entries)"
  by (subst parse_classic_loop.simps) (auto simp: peel_sit_def Let_def)

theorem classic_truncation_not_reported_witness:
  "unat (rd16be (drop 4 truncated_classic_archive)) = 2
   \<and> (1 :: nat) < 2
   \<and> 135 + SIT_ENTRY_HDR_SIZE > length truncated_classic_archive - 0
   \<and> parse_classic_loop truncated_classic_archive 0 2 135 1 [] [entry_A] = Inr [entry_A]
   \<and> find_classic_magic truncated_classic_archive = Some 0
   \<and> find_sit5_magic truncated_classic_archive = None
   \<and> parse_classic truncated_classic_archive 0 = Inr [entry_A]
   \<and> peel_sit unused_parse_sit5 unused_fork_decoder unused_fork_decoder truncated_classic_archive
       = Inr [file_A]"
proof -
  have h: "(1 :: nat) < 2"
    "135 + SIT_ENTRY_HDR_SIZE > length truncated_classic_archive - 0"
    by (simp_all add: trunc_len SIT_ENTRY_HDR_SIZE_def)
  from h classic_truncation_not_reported[where ndone = 1 and file_count = 2 and cursor = 135
      and blob = truncated_classic_archive and archive_off = 0 and dirs = "[]"
      and entries = "[entry_A]"]
  have l: "parse_classic_loop truncated_classic_archive 0 2 135 1 [] [entry_A] = Inr [entry_A]"
    by simp
  have p: "parse_classic truncated_classic_archive 0 = Inr [entry_A]"
    by (simp add: parse_classic_def trunc_len trunc_count trunc_first_entry
          l l[unfolded One_nat_def] SIT_CLASSIC_HDR_SIZE_def)
  from trunc_classic trunc_sit5 p
    classic_truncation_not_reported[of _ _ _ _ _ _ "[entry_A]" truncated_classic_archive 0
      unused_parse_sit5 unused_fork_decoder unused_fork_decoder]
  have "peel_sit unused_parse_sit5 unused_fork_decoder unused_fork_decoder
          truncated_classic_archive = Inr [file_A]"
    by (simp add: build_entry_A)
  with h l p trunc_classic trunc_sit5 trunc_count show ?thesis by blast
qed

subsection \<open>MacBinary as a wrapper\<close>

lemma looks_like_sit_Nil: "looks_like_sit [] = False"
  by (simp add: looks_like_sit_def)

lemma bin_two_forks_decode:
  "bin_decode bin_two_forks
     = Inr \<lparr> meta_name = [0x41], mac_type = 0, mac_creator = 0, finder_flags = 0,
             data_fork = [0x44], resource_fork = [0x52] \<rparr>"
proof -
  have v: "bin_validate bin_two_forks"
    by (simp add: bin_two_forks_def bin_validate_def MB_NAME_MAX_def Let_def)
  have h: "bin_parse_header bin_two_forks
             = \<lparr> bh_name = [0x41], bh_name_len = 1, bh_mac_type = 0, bh_mac_creator = 0,
                 bh_finder_flags = 0, bh_data_len = 1, bh_rsrc_len = 1, bh_sec_hdr_len = 0 \<rparr>"
    by (simp add: bin_two_forks_def bin_parse_header_def rd32be_def rd16be_def MB_NAME_MAX_def)
  have l: "length bin_two_forks = 257" by (simp add: bin_two_forks_def)
  have d: "take (Suc 0) (drop 128 bin_two_forks) = [0x44]" "drop 256 bin_two_forks = [0x52]"
    by (simp_all add: bin_two_forks_def)
  show ?thesis
    by (simp add: bin_decode_def v h l d Let_def MB_BLOCK_def pad128_def cstr_def
          BIN_FINDER_CLEAR_MASK_def)
qed

text \<open>
  Claim C7. When MacBinary is peeled as a wrapper, the buffer \<open>peel_bin\<close> returns is
  the resource fork exactly when the data fork does not begin with a recognised StuffIt
  signature (\<open>looks_like_sit\<close>: a classic signature with \<open>rLau\<close> at offset 10, or the
  SIT5 banner) and the resource fork is nonempty; in every other case it is the data
  fork.
\<close>

theorem peel_bin_fork_selection:
  assumes "bin_decode src = Inr file"
  shows "peel_bin src
           = Inr (if \<not> looks_like_sit (data_fork file) \<and> resource_fork file \<noteq> []
                  then resource_fork file else data_fork file)"
  using assms by (cases "data_fork file = []") (auto simp: peel_bin_def looks_like_sit_Nil)

theorem peel_bin_fork_selection_witness:
  "bin_decode bin_two_forks
     = Inr \<lparr> meta_name = [0x41], mac_type = 0, mac_creator = 0, finder_flags = 0,
             data_fork = [0x44], resource_fork = [0x52] \<rparr>
   \<and> \<not> looks_like_sit [0x44]
   \<and> peel_bin bin_two_forks = Inr [0x52]"
proof -
  have n: "\<not> looks_like_sit [0x44]" by (simp add: looks_like_sit_def)
  with peel_bin_fork_selection[OF bin_two_forks_decode] bin_two_forks_decode
  show ?thesis by simp
qed

subsection \<open>BinHex: the CRC field of an empty fork\<close>

lemma bad_data_preamble: "hqx_find_preamble hqx_bad_data_crc = Some 46"
  by code_simp

lemma bad_data_colon: "hqx_find_start_colon hqx_bad_data_crc 46 = Some 47"
  by code_simp

lemma bad_data_header:
  "hqx_parse_header (hqx_decoder_init hqx_bad_data_crc 47)
     = Inr (hqx_header_A, hqx_after_header hqx_bad_data_crc)"
  by code_simp

lemma bad_data_field:
  "hqx_read_bytes (hqx_after_header hqx_bad_data_crc) 2
     = Inr ([0x00, 0x01],
            \<lparr> hq_src = hqx_bad_data_crc, hq_src_pos = 81, hq_accum = 630194192,
              hq_accum_bits = 4, hq_rle_marker_seen = False, hq_rle_prev = 1,
              hq_rle_pending = 0 \<rparr>)"
  by code_simp

lemma bad_rsrc_preamble: "hqx_find_preamble hqx_bad_rsrc_crc = Some 46"
  by code_simp

lemma bad_rsrc_colon: "hqx_find_start_colon hqx_bad_rsrc_crc 46 = Some 47"
  by code_simp

lemma bad_rsrc_header:
  "hqx_parse_header (hqx_decoder_init hqx_bad_rsrc_crc 47)
     = Inr (hqx_header_A, hqx_after_header hqx_bad_rsrc_crc)"
  by code_simp

lemma bad_rsrc_data_fork:
  "hqx_read_fork (hqx_after_header hqx_bad_rsrc_crc) (hh_data_len hqx_header_A) ''data''
     = Inr ([],
            \<lparr> hq_src = hqx_bad_rsrc_crc, hq_src_pos = 81, hq_accum = 630194176,
              hq_accum_bits = 4, hq_rle_marker_seen = False, hq_rle_prev = 0,
              hq_rle_pending = 0 \<rparr>)"
  by code_simp

lemma bad_rsrc_field:
  "hqx_read_bytes
     \<lparr> hq_src = hqx_bad_rsrc_crc, hq_src_pos = 81, hq_accum = 630194176,
       hq_accum_bits = 4, hq_rle_marker_seen = False, hq_rle_prev = 0,
       hq_rle_pending = 0 \<rparr> 2
     = Inr ([0x00, 0x01],
            \<lparr> hq_src = hqx_bad_rsrc_crc, hq_src_pos = 83, hq_accum = 1,
              hq_accum_bits = 0, hq_rle_marker_seen = False, hq_rle_prev = 1,
              hq_rle_pending = 0 \<rparr>)"
  by code_simp

lemma empty_forks_decode:
  "hqx_decode hqx_empty_forks
     = Inr \<lparr> meta_name = [0x41], mac_type = 0x54455854, mac_creator = 0x74747874,
             finder_flags = 0, data_fork = [], resource_fork = [] \<rparr>"
  by code_simp

text \<open>
  Claim C8. A fork whose declared length is 0 is still followed by a two-byte CRC
  field: \<^verbatim>\<open>hqx_read_fork\<close> reads two bytes, fails if they are not there, succeeds with
  an empty fork if the field is \<open>0x0000\<close> and fails with the CRC-mismatch error of the
  empty fork otherwise. That failure is the result of the whole decode, for the data
  fork and for the resource fork alike.
\<close>

theorem hqx_empty_fork_crc:
  "hqx_read_fork dec 0 fork_name
     = (case hqx_read_bytes dec 2 of
          Inl e \<Rightarrow> Inl e
        | Inr (crc_bytes, dec1) \<Rightarrow>
            if rd16be crc_bytes = 0x0000 then Inr ([], dec1)
            else Inl (Hqx_fork_crc_mismatch_empty fork_name))
   \<and> (hqx_find_preamble src = Some a \<and> hqx_find_start_colon src a = Some p
        \<and> hqx_parse_header (hqx_decoder_init src p) = Inr (hdr, d1)
        \<and> hh_data_len hdr = 0
        \<and> hqx_read_bytes d1 2 = Inr (c1, d2) \<and> rd16be c1 \<noteq> 0x0000
      \<longrightarrow> hqx_decode src = Inl (Hqx_fork_crc_mismatch_empty ''data'')
          \<and> peel_hqx src = Inl (Hqx_fork_crc_mismatch_empty ''data''))
   \<and> (hqx_find_preamble src = Some a \<and> hqx_find_start_colon src a = Some p
        \<and> hqx_parse_header (hqx_decoder_init src p) = Inr (hdr, d1)
        \<and> hqx_read_fork d1 (hh_data_len hdr) ''data'' = Inr (dfork, d3)
        \<and> hh_rsrc_len hdr = 0
        \<and> hqx_read_bytes d3 2 = Inr (c2, d4) \<and> rd16be c2 \<noteq> 0x0000
      \<longrightarrow> hqx_decode src = Inl (Hqx_fork_crc_mismatch_empty ''resource'')
          \<and> peel_hqx src = Inl (Hqx_fork_crc_mismatch_empty ''resource''))"
  by (auto simp: hqx_read_fork_def hqx_decode_def peel_hqx_def Let_def
           split: sum.splits prod.splits)

theorem hqx_empty_fork_crc_witness:
  "hqx_decode hqx_bad_data_crc = Inl (Hqx_fork_crc_mismatch_empty ''data'')
   \<and> hqx_decode hqx_bad_rsrc_crc = Inl (Hqx_fork_crc_mismatch_empty ''resource'')
   \<and> peel_hqx hqx_bad_rsrc_crc = Inl (Hqx_fork_crc_mismatch_empty ''resource'')
   \<and> hqx_decode hqx_empty_forks
       = Inr \<lparr> meta_name = [0x41], mac_type = 0x54455854, mac_creator = 0x74747874,
               finder_flags = 0, data_fork = [], resource_fork = [] \<rparr>"
proof -
  have n: "rd16be [0x00, 0x01] \<noteq> 0x0000" "hh_data_len hqx_header_A = 0"
    "hh_rsrc_len hqx_header_A = 0"
    by (simp_all add: rd16be_def hqx_header_A_def)
  from hqx_empty_fork_crc[of _ _ hqx_bad_data_crc 46 47 hqx_header_A
         "hqx_after_header hqx_bad_data_crc" "[0x00, 0x01]"]
    bad_data_preamble bad_data_colon bad_data_header bad_data_field n
  have 1: "hqx_decode hqx_bad_data_crc = Inl (Hqx_fork_crc_mismatch_empty ''data'')"
    by blast
  from hqx_empty_fork_crc[of _ _ hqx_bad_rsrc_crc 46 47 hqx_header_A
         "hqx_after_header hqx_bad_rsrc_crc" _ _ "[]" _ "[0x00, 0x01]"]
    bad_rsrc_preamble bad_rsrc_colon bad_rsrc_header bad_rsrc_data_fork bad_rsrc_field n
  have 2: "hqx_decode hqx_bad_rsrc_crc = Inl (Hqx_fork_crc_mismatch_empty ''resource'')
           \<and> peel_hqx hqx_bad_rsrc_crc = Inl (Hqx_fork_crc_mismatch_empty ''resource'')"
    by blast
  from 1 2 empty_forks_decode show ?thesis by blast
qed

end
